theory Spec2Isabelle
  imports Complex_Main
begin

section \<open>JavaScript values used by the points tracker\<close>

subsection \<open>Numbers\<close>

text \<open>
  A JavaScript \<^verbatim>\<open>number\<close> is a finite double, \<^verbatim>\<open>NaN\<close>, \<^verbatim>\<open>Infinity\<close> or \<^verbatim>\<open>-Infinity\<close>. A finite
  double is kept as the rational it denotes, and the two zeros are identified. The
  conversion of a string rounds to the nearest double (\<open>nearest_double\<close> below). The
  operators \<^verbatim>\<open>+\<close>, \<^verbatim>\<open>-\<close>, \<^verbatim>\<open>*\<close> and \<^verbatim>\<open>/\<close> are written without rounding: they give what JavaScript
  gives whenever the exact result is a double, in particular on integers as long as
  operands and result have a magnitude of at most \<open>2^53\<close>; the remainder, the floor, the
  ceiling and the comparisons are exact on all doubles.
\<close>

datatype number = Fin rat | NaN | PosInf | NegInf

fun js_neg :: "number \<Rightarrow> number" where
  "js_neg (Fin a) = Fin (- a)"
| "js_neg NaN = NaN"
| "js_neg PosInf = NegInf"
| "js_neg NegInf = PosInf"

fun js_add :: "number \<Rightarrow> number \<Rightarrow> number" where
  "js_add (Fin a) (Fin b) = Fin (a + b)"
| "js_add NaN _ = NaN"
| "js_add _ NaN = NaN"
| "js_add PosInf NegInf = NaN"
| "js_add NegInf PosInf = NaN"
| "js_add PosInf _ = PosInf"
| "js_add _ PosInf = PosInf"
| "js_add NegInf _ = NegInf"
| "js_add _ NegInf = NegInf"

definition js_sub :: "number \<Rightarrow> number \<Rightarrow> number" where
  "js_sub a b = js_add a (js_neg b)"

text \<open>The infinity with the sign of a rational; \<open>0 * Infinity\<close> and \<open>0 / 0\<close> are \<open>NaN\<close>.\<close>

definition inf_of :: "rat \<Rightarrow> number" where
  "inf_of a = (if a = 0 then NaN else if 0 < a then PosInf else NegInf)"

fun js_mul :: "number \<Rightarrow> number \<Rightarrow> number" where
  "js_mul (Fin a) (Fin b) = Fin (a * b)"
| "js_mul NaN _ = NaN"
| "js_mul _ NaN = NaN"
| "js_mul PosInf (Fin b) = inf_of b"
| "js_mul (Fin a) PosInf = inf_of a"
| "js_mul NegInf (Fin b) = inf_of (- b)"
| "js_mul (Fin a) NegInf = inf_of (- a)"
| "js_mul PosInf PosInf = PosInf"
| "js_mul NegInf NegInf = PosInf"
| "js_mul PosInf NegInf = NegInf"
| "js_mul NegInf PosInf = NegInf"

text \<open>Division; a zero divisor is read as \<open>+0\<close> (every divisor in the program is a positive literal
  or the page size).\<close>

fun js_div :: "number \<Rightarrow> number \<Rightarrow> number" where
  "js_div (Fin a) (Fin b) = (if b = 0 then inf_of a else Fin (a / b))"
| "js_div NaN _ = NaN"
| "js_div _ NaN = NaN"
| "js_div (Fin a) _ = Fin 0"
| "js_div PosInf (Fin b) = (if b < 0 then NegInf else PosInf)"
| "js_div NegInf (Fin b) = (if b < 0 then PosInf else NegInf)"
| "js_div _ _ = NaN"

definition trunc :: "rat \<Rightarrow> int" where
  "trunc a = (if a < 0 then \<lceil>a\<rceil> else \<lfloor>a\<rfloor>)"

text \<open>The remainder operator \<^verbatim>\<open>%\<close>: the result has the sign of the dividend.\<close>

fun js_rem :: "number \<Rightarrow> number \<Rightarrow> number" where
  "js_rem (Fin a) (Fin b) = (if b = 0 then NaN else Fin (a - b * of_int (trunc (a / b))))"
| "js_rem (Fin a) PosInf = Fin a"
| "js_rem (Fin a) NegInf = Fin a"
| "js_rem _ _ = NaN"

fun js_lt :: "number \<Rightarrow> number \<Rightarrow> bool" where
  "js_lt (Fin a) (Fin b) = (a < b)"
| "js_lt NaN _ = False"
| "js_lt _ NaN = False"
| "js_lt PosInf _ = False"
| "js_lt _ NegInf = False"
| "js_lt _ PosInf = True"
| "js_lt NegInf _ = True"

fun js_le :: "number \<Rightarrow> number \<Rightarrow> bool" where
  "js_le (Fin a) (Fin b) = (a \<le> b)"
| "js_le NaN _ = False"
| "js_le _ NaN = False"
| "js_le NegInf _ = True"
| "js_le _ PosInf = True"
| "js_le _ _ = False"

text \<open>Strict inequality \<^verbatim>\<open>!==\<close> on numbers: \<^verbatim>\<open>NaN\<close> differs from everything, itself included.\<close>

definition js_sne :: "number \<Rightarrow> number \<Rightarrow> bool" where
  "js_sne a b = (a = NaN \<or> b = NaN \<or> a \<noteq> b)"

fun Math_floor :: "number \<Rightarrow> number" where
  "Math_floor (Fin a) = Fin (of_int \<lfloor>a\<rfloor>)"
| "Math_floor x = x"

fun Math_ceil :: "number \<Rightarrow> number" where
  "Math_ceil (Fin a) = Fin (of_int \<lceil>a\<rceil>)"
| "Math_ceil x = x"

text \<open>Truthiness of a number, and \<^verbatim>\<open>a || b\<close> on numbers.\<close>

definition truthy :: "number \<Rightarrow> bool" where
  "truthy a = (a \<noteq> NaN \<and> a \<noteq> Fin 0)"

definition js_or :: "number \<Rightarrow> number \<Rightarrow> number" where
  "js_or a b = (if truthy a then a else b)"

text \<open>
  Rounding of a rational to the nearest double, ties to the even significand: the unit in
  the last place is \<open>2^(e - 52)\<close> for a value in \<open>[2^e, 2^(e+1))\<close>, with \<open>e\<close> no smaller than
  \<open>-1022\<close> (below that the doubles are equally spaced). A result of \<open>2^1024\<close> or more is an
  infinity: that is a value of \<open>2^1024\<close> or more, or one in \<open>[2^1023, 2^1024)\<close> whose
  significand rounds up to \<open>2^53\<close>.
\<close>

function bit_length :: "int \<Rightarrow> nat" where
  "bit_length n = (if n \<le> 0 then 0 else Suc (bit_length (n div 2)))"
  by pat_completeness auto
termination
  by (relation "measure nat") auto

definition floor_log2 :: "rat \<Rightarrow> int" where
  "floor_log2 x =
     (case quotient_of x of
        (p, q) \<Rightarrow>
          (let e = int (bit_length p) - int (bit_length q)
           in if 2 powi e \<le> x then e else e - 1))"

definition round_half_even :: "rat \<Rightarrow> int" where
  "round_half_even q =
     (let f = \<lfloor>q\<rfloor>; r = q - of_int f
      in if r < 1 / 2 then f else if 1 / 2 < r then f + 1 else if even f then f else f + 1)"

definition nearest_double_pos :: "rat \<Rightarrow> number" where
  "nearest_double_pos x =
     (let e = floor_log2 x;
          u = 2 powi (max e (- 1022) - 52);
          n = round_half_even (x / u)
      in if 1024 \<le> e \<or> (e = 1023 \<and> n = 2 ^ 53) then PosInf else Fin (of_int n * u))"

definition nearest_double :: "rat \<Rightarrow> number" where
  "nearest_double x =
     (if x = 0 then Fin 0
      else if 0 < x then nearest_double_pos x
      else js_neg (nearest_double_pos (- x)))"

subsection \<open>Strings\<close>

text \<open>
  A character stands for a UTF-16 code unit below 256. White space and line terminators
  among them are TAB, LF, VT, FF, CR, SP and NBSP.
\<close>

definition is_ws :: "char \<Rightarrow> bool" where
  "is_ws c = ((of_char c :: nat) \<in> set [9, 10, 11, 12, 13, 32, 160])"

definition String_trim :: "string \<Rightarrow> string" where
  "String_trim s = rev (dropWhile is_ws (rev (dropWhile is_ws s)))"

definition is_digit :: "char \<Rightarrow> bool" where
  "is_digit c = (c \<in> set ''0123456789'')"

text \<open>Value of a digit in bases up to 16, when the character is one.\<close>

definition digit_val :: "char \<Rightarrow> nat option" where
  "digit_val c =
     (if is_digit c then Some (of_char c - 48)
      else if c \<in> set ''abcdef'' then Some (of_char c - 87)
      else if c \<in> set ''ABCDEF'' then Some (of_char c - 55)
      else None)"

definition is_digit_of :: "nat \<Rightarrow> char \<Rightarrow> bool" where
  "is_digit_of base c = (case digit_val c of None \<Rightarrow> False | Some v \<Rightarrow> v < base)"

definition digits_val :: "nat \<Rightarrow> string \<Rightarrow> int" where
  "digits_val base s =
     foldl (\<lambda>a c. int base * a + (case digit_val c of None \<Rightarrow> 0 | Some v \<Rightarrow> int v)) 0 s"

subsection \<open>\<^verbatim>\<open>Number(string)\<close>\<close>

text \<open>
  The conversion of a string to a number (ECMAScript StringToNumber): white space is
  trimmed, the empty string is \<open>0\<close>, a signed decimal literal with optional fraction and
  exponent, \<^verbatim>\<open>Infinity\<close>, or an unsigned hexadecimal, octal or binary literal gives the
  double nearest to its value, and every other string is \<^verbatim>\<open>NaN\<close>.
\<close>

definition exponent_part :: "string \<Rightarrow> int option" where
  "exponent_part s =
     (case s of
        [] \<Rightarrow> Some 0
      | c # t \<Rightarrow>
          if c = CHR ''e'' \<or> c = CHR ''E'' then
            (let neg = (t \<noteq> [] \<and> hd t = CHR ''-'');
                 ds = (if t \<noteq> [] \<and> (hd t = CHR ''-'' \<or> hd t = CHR ''+'') then tl t else t)
             in if ds \<noteq> [] \<and> list_all is_digit ds
                then Some ((if neg then - 1 else 1) * digits_val 10 ds)
                else None)
          else None)"

definition unsigned_decimal :: "string \<Rightarrow> number" where
  "unsigned_decimal s =
     (if s = ''Infinity'' then PosInf
      else
        let ip = takeWhile is_digit s;
            r = dropWhile is_digit s;
            dot = (r \<noteq> [] \<and> hd r = CHR ''.'');
            fp = (if dot then takeWhile is_digit (tl r) else []);
            r' = (if dot then dropWhile is_digit (tl r) else r)
        in if ip = [] \<and> fp = [] then NaN
           else (case exponent_part r' of
                   None \<Rightarrow> NaN
                 | Some e \<Rightarrow>
                     nearest_double (of_int (digits_val 10 (ip @ fp)) / 10 ^ length fp * 10 powi e)))"

definition radix_literal :: "nat \<Rightarrow> string \<Rightarrow> number" where
  "radix_literal base ds =
     (if ds \<noteq> [] \<and> list_all (is_digit_of base) ds
      then nearest_double (of_int (digits_val base ds)) else NaN)"

definition Number_js :: "string \<Rightarrow> number" where
  "Number_js str =
     (let s = String_trim str in
      case s of
        [] \<Rightarrow> Fin 0
      | c # t \<Rightarrow>
          if c = CHR ''+'' then unsigned_decimal t
          else if c = CHR ''-'' then js_neg (unsigned_decimal t)
          else if c = CHR ''0'' \<and> t \<noteq> [] \<and> hd t \<in> set ''xX'' then radix_literal 16 (tl t)
          else if c = CHR ''0'' \<and> t \<noteq> [] \<and> hd t \<in> set ''oO'' then radix_literal 8 (tl t)
          else if c = CHR ''0'' \<and> t \<noteq> [] \<and> hd t \<in> set ''bB'' then radix_literal 2 (tl t)
          else unsigned_decimal s)"

subsection \<open>Arrays\<close>

text \<open>\<^verbatim>\<open>Array.prototype.slice(start, end)\<close>: both bounds are truncated to integers, a negative bound
  counts from the end, and both are clamped to the length.\<close>

definition slice_index :: "nat \<Rightarrow> number \<Rightarrow> nat" where
  "slice_index len rel =
     (case rel of
        NaN \<Rightarrow> 0
      | NegInf \<Rightarrow> 0
      | PosInf \<Rightarrow> len
      | Fin a \<Rightarrow> (if trunc a < 0 then nat (max (int len + trunc a) 0) else min (nat (trunc a)) len))"

definition Array_slice :: "'a list \<Rightarrow> number \<Rightarrow> number \<Rightarrow> 'a list" where
  "Array_slice xs start fin =
     (let k = slice_index (length xs) start; final = slice_index (length xs) fin
      in take (final - k) (drop k xs))"

subsection \<open>Dates\<close>

text \<open>
  A time value is a number of milliseconds since 1970-01-01T00:00Z. Days are counted in
  the proleptic Gregorian calendar; months are numbered from 1 here.
\<close>

definition msPerDay :: int where
  "msPerDay = 86400000"

definition Day :: "int \<Rightarrow> int" where
  "Day t = t div msPerDay"

definition TimeWithinDay :: "int \<Rightarrow> int" where
  "TimeWithinDay t = t mod msPerDay"

definition days_from_civil :: "int \<Rightarrow> int \<Rightarrow> int \<Rightarrow> int" where
  "days_from_civil y m d =
     (let y' = (if m \<le> 2 then y - 1 else y);
          era = y' div 400;
          yoe = y' - era * 400;
          doy = (153 * (if 2 < m then m - 3 else m + 9) + 2) div 5 + d - 1;
          doe = yoe * 365 + yoe div 4 - yoe div 100 + doy
      in era * 146097 + doe - 719468)"

definition civil_from_days :: "int \<Rightarrow> int \<times> int \<times> int" where
  "civil_from_days n =
     (let z = n + 719468;
          era = z div 146097;
          doe = z - era * 146097;
          yoe = (doe - doe div 1460 + doe div 36524 - doe div 146096) div 365;
          doy = doe - (365 * yoe + yoe div 4 - yoe div 100);
          mp = (5 * doy + 2) div 153;
          d = doy - (153 * mp + 2) div 5 + 1;
          m = (if mp < 10 then mp + 3 else mp - 9)
      in (yoe + era * 400 + (if m \<le> 2 then 1 else 0), m, d))"

text \<open>The host's time zone: the offset (in milliseconds) in force at a UTC time value, and the
  offset by which a local time value is read (ECMAScript \<open>LocalTZA(t, true)\<close> and
  \<open>LocalTZA(t, false)\<close>).\<close>

record zone =
  offset_at_utc :: "int \<Rightarrow> int"
  offset_at_local :: "int \<Rightarrow> int"

definition LocalTime :: "zone \<Rightarrow> int \<Rightarrow> int" where
  "LocalTime z t = t + offset_at_utc z t"

definition UTC :: "zone \<Rightarrow> int \<Rightarrow> int" where
  "UTC z t = t - offset_at_local z t"

definition two_digits :: "string \<Rightarrow> int option" where
  "two_digits s = (if length s = 2 \<and> list_all is_digit s then Some (digits_val 10 s) else None)"

text \<open>
  \<^verbatim>\<open>new Date(s)\<close> for the values a date input produces: \<^verbatim>\<open>YYYY-MM-DD\<close> is midnight UTC of
  that day, with a month from 01 to 12 and a day from 01 to 31; a day that the month does
  not have runs over into the next month (\<^verbatim>\<open>2024-02-30\<close> is March 1). Other strings, whose
  parse the language leaves to the implementation, count as invalid dates, \<open>None\<close>.
\<close>

definition Date_of_string :: "string \<Rightarrow> int option" where
  "Date_of_string s =
     (if length s = 10 \<and> list_all is_digit (take 4 s) \<and> s ! 4 = CHR ''-'' \<and> s ! 7 = CHR ''-'' then
        (case (two_digits (take 2 (drop 5 s)), two_digits (drop 8 s)) of
           (Some m, Some d) \<Rightarrow>
             if 1 \<le> m \<and> m \<le> 12 \<and> 1 \<le> d \<and> d \<le> 31
             then Some (days_from_civil (digits_val 10 (take 4 s)) m d * msPerDay)
             else None
         | _ \<Rightarrow> None)
      else None)"

text \<open>\<^verbatim>\<open>getDate()\<close> is the day of the month in local time; \<^verbatim>\<open>setDate(dt)\<close> replaces it, keeping
  the local time of day, and converts the local result back to UTC.\<close>

definition getDate :: "zone \<Rightarrow> int \<Rightarrow> int" where
  "getDate z t = (case civil_from_days (Day (LocalTime z t)) of (y, m, d) \<Rightarrow> d)"

definition MakeDay :: "int \<Rightarrow> int \<Rightarrow> int \<Rightarrow> int" where
  "MakeDay y m dt = days_from_civil y m 1 + dt - 1"

definition setDate :: "zone \<Rightarrow> int \<Rightarrow> int \<Rightarrow> int" where
  "setDate z dt t =
     (let lt = LocalTime z t in
      case civil_from_days (Day lt) of
        (y, m, d) \<Rightarrow> UTC z (MakeDay y m dt * msPerDay + TimeWithinDay lt))"

fun digit_chars :: "nat \<Rightarrow> nat \<Rightarrow> string" where
  "digit_chars 0 n = []"
| "digit_chars (Suc k) n = digit_chars k (n div 10) @ [char_of (48 + n mod 10)]"

text \<open>The first ten characters of \<^verbatim>\<open>toISOString()\<close>: the UTC date, with a sign and six digits
  for years outside 0..9999.\<close>

definition toISOString_slice_0_10 :: "int \<Rightarrow> string" where
  "toISOString_slice_0_10 t =
     (case civil_from_days (Day t) of
        (y, m, d) \<Rightarrow>
          take 10
            ((if 0 \<le> y \<and> y \<le> 9999 then digit_chars 4 (nat y)
              else (if y < 0 then ''-'' else ''+'') @ digit_chars 6 (nat \<bar>y\<bar>))
             @ ''-'' @ digit_chars 2 (nat m) @ ''-'' @ digit_chars 2 (nat d) @ ''T''))"

section \<open>Data model\<close>

text \<open>
  The two interfaces of the page. Timestamps are kept as the instant they denote
  (milliseconds since the epoch); the \<^verbatim>\<open>id\<close> and \<^verbatim>\<open>created_at\<close> fields carry a suffix where
  the two records would clash. A numeric field of a row is a number or, at run time, the
  \<^verbatim>\<open>null\<close> that the store holds (\<open>None\<close>).
\<close>

text \<open>Rows travel as JSON, which has no \<^verbatim>\<open>NaN\<close> and no infinities: \<^verbatim>\<open>JSON.stringify\<close> writes them
  as \<^verbatim>\<open>null\<close>. Read where a number is expected (\<^verbatim>\<open>+\<close>, \<^verbatim>\<open>-\<close>, \<^verbatim>\<open><\<close>), \<^verbatim>\<open>null\<close> counts as \<open>0\<close>.\<close>

definition JSON_number :: "number \<Rightarrow> number option" where
  "JSON_number x = (case x of Fin a \<Rightarrow> Some (Fin a) | _ \<Rightarrow> None)"

definition ToNumber :: "number option \<Rightarrow> number" where
  "ToNumber v = (case v of None \<Rightarrow> Fin 0 | Some x \<Rightarrow> x)"

record Customer =
  id_cust :: string
  phone_number :: string
  name :: "string option"
  total_points :: "number option"
  created_at_cust :: int

record Transaction =
  id_tx :: string
  customer_id :: string
  type :: string
  amount :: "number option"
  points_changed :: "number option"
  created_at :: int

record NewCustomer =
  phoneNumber :: string
  name_new :: string
  total_points_new :: number

text \<open>The state of the \<^verbatim>\<open>Home\<close> component that the handlers read and write.\<close>

record app =
  customers :: "Customer list"
  searchPhone :: string
  currentCustomer :: "Customer option"
  showAddForm :: bool
  newCustomer :: NewCustomer
  purchaseAmount :: string
  error :: string
  loading :: bool
  transactions :: "Transaction list"
  historyPage :: number
  historyPageSize :: number
  historyStartDate :: string
  historyEndDate :: string
  nameResults :: "Customer list"

section \<open>The store\<close>

text \<open>
  The relational store behind \<^verbatim>\<open>supabase\<close>: the two tables, and the log of the calls the page
  has made, each with the arguments the page passed. A number reaches the tables as its
  JSON form, so a finite number is stored as it is and \<^verbatim>\<open>NaN\<close> or an infinity arrives as
  \<^verbatim>\<open>null\<close>. Whether the numeric columns accept \<^verbatim>\<open>null\<close> is a matter of their declaration,
  which the page does not fix (the migration of the repository declares neither
  \<^verbatim>\<open>total_points\<close> nor the table of transactions): it is the field \<open>nullable\<close> of the store,
  and a store whose columns are \<^verbatim>\<open>NOT NULL\<close> refuses the statement. What the store generates
  for an inserted row (its id, its clock) and the time zone of the host come from the
  environment.
\<close>

datatype request =
    Select_customer_eq_phone_number string
  | Select_customers_ilike_name string
  | Update_total_points string number
  | Insert_transaction string string number number
  | Select_transactions string "string option" "string option"

datatype store_error = RowCount | BadLiteral | BadPattern | NotNull

record store =
  customers_tbl :: "Customer list"
  transactions_tbl :: "Transaction list"
  requests :: "request list"
  nullable :: bool

record env =
  next_id :: string
  clock :: int
  host_zone :: zone

definition send :: "request \<Rightarrow> store \<Rightarrow> store" where
  "send q db = db\<lparr>requests := requests db @ [q]\<rparr>"

text \<open>\<^verbatim>\<open>from('customers').select('*').eq('phone_number', input).maybeSingle()\<close>: the row, no row,
  or an error when several rows match.\<close>

definition customers_eq_phone_number_maybeSingle ::
  "string \<Rightarrow> store \<Rightarrow> (store_error + Customer option) \<times> store" where
  "customers_eq_phone_number_maybeSingle input db =
     (case filter (\<lambda>c. phone_number c = input) (customers_tbl db) of
        [] \<Rightarrow> (Inr None, send (Select_customer_eq_phone_number input) db)
      | [c] \<Rightarrow> (Inr (Some c), send (Select_customer_eq_phone_number input) db)
      | _ \<Rightarrow> (Inl RowCount, send (Select_customer_eq_phone_number input) db))"

text \<open>\<^verbatim>\<open>from('customers').select('*').ilike('name', input)\<close>. The store's \<^verbatim>\<open>ILIKE\<close> operator is a
  parameter: applied to a name and the pattern it answers whether they match, or \<open>None\<close>
  when it rejects the pattern. A row without a name never matches.\<close>

definition customers_ilike_name ::
  "(string \<Rightarrow> string \<Rightarrow> bool option) \<Rightarrow> string \<Rightarrow> store \<Rightarrow> (store_error + Customer list) \<times> store" where
  "customers_ilike_name ilike input db =
     (if list_ex (\<lambda>c. case name c of None \<Rightarrow> False | Some n \<Rightarrow> ilike n input = None) (customers_tbl db)
      then (Inl BadPattern, send (Select_customers_ilike_name input) db)
      else (Inr (filter (\<lambda>c. case name c of None \<Rightarrow> False | Some n \<Rightarrow> ilike n input = Some True)
                   (customers_tbl db)),
            send (Select_customers_ilike_name input) db))"

text \<open>\<^verbatim>\<open>from('customers').update({ total_points: p }).eq('id', i).select().single()\<close>: the updated
  row, or an error (and no change) when the column refuses the value or unless exactly one
  row has the id.\<close>

definition customers_update_total_points_single ::
  "string \<Rightarrow> number \<Rightarrow> store \<Rightarrow> (store_error + Customer) \<times> store" where
  "customers_update_total_points_single i p db =
     (if JSON_number p = None \<and> \<not> nullable db
      then (Inl NotNull, send (Update_total_points i p) db)
      else
        (case filter (\<lambda>c. id_cust c = i) (customers_tbl db) of
           [c] \<Rightarrow>
             (Inr (c\<lparr>total_points := JSON_number p\<rparr>),
              send (Update_total_points i p)
                (db\<lparr>customers_tbl :=
                      map (\<lambda>c. if id_cust c = i then c\<lparr>total_points := JSON_number p\<rparr> else c)
                        (customers_tbl db)\<rparr>))
         | _ \<Rightarrow> (Inl RowCount, send (Update_total_points i p) db)))"

text \<open>\<^verbatim>\<open>from('transactions').insert([{ customer_id, type, amount, points_changed }])\<close>: the row is
  appended with the id and the creation time the store gives it, unless a column refuses
  its value. The page does not look at the outcome of this call, so none is returned.\<close>

definition transactions_insert ::
  "env \<Rightarrow> string \<Rightarrow> string \<Rightarrow> number \<Rightarrow> number \<Rightarrow> store \<Rightarrow> store" where
  "transactions_insert e cid ty amt pts db =
     (if (JSON_number amt = None \<or> JSON_number pts = None) \<and> \<not> nullable db
      then send (Insert_transaction cid ty amt pts) db
      else
        send (Insert_transaction cid ty amt pts)
          (db\<lparr>transactions_tbl := transactions_tbl db @
                 [\<lparr>id_tx = next_id e, customer_id = cid, type = ty, amount = JSON_number amt,
                   points_changed = JSON_number pts, created_at = clock e\<rparr>]\<rparr>))"

text \<open>A bound of a query on \<^verbatim>\<open>created_at\<close>: absent, or a date literal that the store reads as
  midnight UTC of that day, or a literal it cannot read.\<close>

definition read_bound :: "string option \<Rightarrow> int option option" where
  "read_bound b =
     (case b of
        None \<Rightarrow> Some None
      | Some s \<Rightarrow> (case Date_of_string s of None \<Rightarrow> None | Some t \<Rightarrow> Some (Some t)))"

text \<open>\<^verbatim>\<open>from('transactions').select('*').eq('customer_id', id).order('created_at', { ascending: false })\<close>
  with the optional \<^verbatim>\<open>gte\<close> and \<^verbatim>\<open>lt\<close> filters on \<^verbatim>\<open>created_at\<close>.\<close>

definition transactions_select ::
  "string \<Rightarrow> string option \<Rightarrow> string option \<Rightarrow> store \<Rightarrow> (store_error + Transaction list) \<times> store" where
  "transactions_select customerId gte lt db =
     (case (read_bound gte, read_bound lt) of
        (Some lo, Some hi) \<Rightarrow>
          (Inr (sort_key (\<lambda>t. - created_at t)
                  (filter (\<lambda>t. customer_id t = customerId
                              \<and> (case lo of None \<Rightarrow> True | Some a \<Rightarrow> a \<le> created_at t)
                              \<and> (case hi of None \<Rightarrow> True | Some b \<Rightarrow> created_at t < b))
                     (transactions_tbl db))),
           send (Select_transactions customerId gte lt) db)
      | _ \<Rightarrow> (Inl BadLiteral, send (Select_transactions customerId gte lt) db))"

section \<open>History query\<close>

text \<open>
  \<^verbatim>\<open>loadTransactions\<close>: the start date, when set, is the lower bound as it is; the end date,
  when set, is parsed, moved one day on with \<^verbatim>\<open>setDate(getDate() + 1)\<close> and sent as the first
  ten characters of its ISO string (\<open>end_filter\<close>; \<open>Some None\<close> is no filter). An invalid end
  date makes \<^verbatim>\<open>toISOString\<close> throw (\<open>None\<close>): nothing is sent and nothing changes. The
  state is only written when the store reports no error.
\<close>

definition end_filter :: "zone \<Rightarrow> string \<Rightarrow> string option option" where
  "end_filter z endDate =
     (if endDate \<noteq> [] then
        (case Date_of_string endDate of
           None \<Rightarrow> None
         | Some t \<Rightarrow> Some (Some (toISOString_slice_0_10 (setDate z (getDate z t + 1) t))))
      else Some None)"

fun loadTransactions :: "zone \<Rightarrow> string \<Rightarrow> app \<times> store \<Rightarrow> app \<times> store" where
  "loadTransactions z customerId (st, db) =
     (case end_filter z (historyEndDate st) of
        None \<Rightarrow> (st, db)
      | Some lt \<Rightarrow>
          (case transactions_select customerId
                  (if historyStartDate st \<noteq> [] then Some (historyStartDate st) else None) lt db of
             (Inl err, db') \<Rightarrow> (st, db')
           | (Inr data, db') \<Rightarrow> (st\<lparr>transactions := data\<rparr>, db')))"

text \<open>Pagination: the slice shown, the page count, and the count as the page footer prints it
  (\<^verbatim>\<open>totalPages || 1\<close>).\<close>

definition paginatedTransactions :: "app \<Rightarrow> Transaction list" where
  "paginatedTransactions st =
     Array_slice (transactions st)
       (js_mul (js_sub (historyPage st) (Fin 1)) (historyPageSize st))
       (js_mul (historyPage st) (historyPageSize st))"

definition totalPages :: "app \<Rightarrow> number" where
  "totalPages st = Math_ceil (js_div (Fin (of_nat (length (transactions st)))) (historyPageSize st))"

definition totalPages_shown :: "app \<Rightarrow> number" where
  "totalPages_shown st = js_or (totalPages st) (Fin 1)"

section \<open>Ledger\<close>

text \<open>
  \<^verbatim>\<open>handleAddPoints\<close> (the same in both versions of the page). Without a current customer
  nothing happens. The purchase amount is converted and rounded down; a result \<open>\<le> 0\<close> is
  refused with a message. Otherwise the new balance is written, the transaction is
  inserted, the page state is refreshed and the history is reloaded; an error of the
  update leaves only a message.
\<close>

fun handleAddPoints :: "env \<Rightarrow> app \<times> store \<Rightarrow> app \<times> store" where
  "handleAddPoints e (st, db) =
     (case currentCustomer st of
        None \<Rightarrow> (st, db)
      | Some cur \<Rightarrow>
          (let amount = Math_floor (Number_js (purchaseAmount st)) in
           if js_le amount (Fin 0) then (st\<lparr>error := ''Please enter a valid purchase amount''\<rparr>, db)
           else
             (let newPoints = js_add (ToNumber (total_points cur)) amount in
              case customers_update_total_points_single (id_cust cur) newPoints db of
                (Inl err, db') \<Rightarrow> (st\<lparr>error := ''Failed to add points'', loading := False\<rparr>, db')
              | (Inr data, db') \<Rightarrow>
                  loadTransactions (host_zone e) (id_cust cur)
                    (st\<lparr>customers := map (\<lambda>c. if id_cust c = id_cust cur then data else c) (customers st),
                        currentCustomer := Some data, purchaseAmount := [], error := [],
                        loading := False\<rparr>,
                     transactions_insert e (id_cust cur) ''add'' amount amount db'))))"

text \<open>\<^verbatim>\<open>handleRedeem\<close> of the version with $5 increments: 100 points for every $5.\<close>

fun handleRedeem :: "env \<Rightarrow> number \<Rightarrow> app \<times> store \<Rightarrow> app \<times> store" where
  "handleRedeem e redeemAmount (st, db) =
     (case currentCustomer st of
        None \<Rightarrow> (st, db)
      | Some cur \<Rightarrow>
          if js_sne (js_rem redeemAmount (Fin 5)) (Fin 0)
          then (st\<lparr>error := ''Redemption must be in $5 increments.''\<rparr>, db)
          else
            (let pointsNeeded = js_mul (js_div redeemAmount (Fin 5)) (Fin 100) in
             if js_lt (ToNumber (total_points cur)) pointsNeeded
             then (st\<lparr>error := ''Not enough points for this redemption.''\<rparr>, db)
             else
               (let newPoints = js_sub (ToNumber (total_points cur)) pointsNeeded in
                case customers_update_total_points_single (id_cust cur) newPoints db of
                  (Inl err, db') \<Rightarrow> (st\<lparr>error := ''Failed to redeem points'', loading := False\<rparr>, db')
                | (Inr data, db') \<Rightarrow>
                    loadTransactions (host_zone e) (id_cust cur)
                      (st\<lparr>customers := map (\<lambda>c. if id_cust c = id_cust cur then data else c) (customers st),
                          currentCustomer := Some data, error := [], loading := False\<rparr>,
                       transactions_insert e (id_cust cur) ''redeem'' redeemAmount (js_neg pointsNeeded) db'))))"

text \<open>\<^verbatim>\<open>handleRedeem\<close> of the version with $10 increments: 10 points for every dollar.\<close>

fun handleRedeem_10 :: "env \<Rightarrow> number \<Rightarrow> app \<times> store \<Rightarrow> app \<times> store" where
  "handleRedeem_10 e redeemAmount (st, db) =
     (case currentCustomer st of
        None \<Rightarrow> (st, db)
      | Some cur \<Rightarrow>
          if js_sne (js_rem redeemAmount (Fin 10)) (Fin 0)
          then (st\<lparr>error := ''Redemption must be in $10 increments.''\<rparr>, db)
          else
            (let pointsNeeded = js_mul redeemAmount (Fin 10) in
             if js_lt (ToNumber (total_points cur)) pointsNeeded
             then (st\<lparr>error := ''Not enough points for this redemption.''\<rparr>, db)
             else
               (let newPoints = js_sub (ToNumber (total_points cur)) pointsNeeded in
                case customers_update_total_points_single (id_cust cur) newPoints db of
                  (Inl err, db') \<Rightarrow> (st\<lparr>error := ''Failed to redeem points'', loading := False\<rparr>, db')
                | (Inr data, db') \<Rightarrow>
                    loadTransactions (host_zone e) (id_cust cur)
                      (st\<lparr>customers := map (\<lambda>c. if id_cust c = id_cust cur then data else c) (customers st),
                          currentCustomer := Some data, error := [], loading := False\<rparr>,
                       transactions_insert e (id_cust cur) ''redeem'' redeemAmount (js_neg pointsNeeded) db'))))"

text \<open>
  \<^verbatim>\<open>getRedemptionOptions\<close>: the \<^verbatim>\<open>for\<close> loop pushes \<open>i\<close> while \<open>i <= maxRedemption\<close>. It does
  not end when \<open>maxRedemption\<close> is \<^verbatim>\<open>Infinity\<close>, hence the option type: \<open>None\<close> is a loop that
  never returns.
\<close>

partial_function (option) options_loop ::
  "number \<Rightarrow> number \<Rightarrow> number \<Rightarrow> number list \<Rightarrow> number list option" where
  "options_loop step maxRedemption i options =
     (if js_le i maxRedemption
      then options_loop step maxRedemption (js_add i step) (options @ [i])
      else Some options)"

declare options_loop.simps [code]

definition getRedemptionOptions :: "number \<Rightarrow> number list option" where
  "getRedemptionOptions points =
     (let maxRedemption = js_mul (Math_floor (js_div points (Fin 100))) (Fin 5)
      in options_loop (Fin 5) maxRedemption (Fin 5) [])"

definition getRedemptionOptions_10 :: "number \<Rightarrow> number list option" where
  "getRedemptionOptions_10 points =
     (let maxRedemption = js_mul (Math_floor (js_div points (Fin 100))) (Fin 10)
      in options_loop (Fin 10) maxRedemption (Fin 10) [])"

section \<open>Customer lookup\<close>

text \<open>\<^verbatim>\<open>/^\d{7,}$/.test(input)\<close>: the longest run of digits at the start has at least seven
  characters and reaches the end of the input.\<close>

definition isPhone_test :: "string \<Rightarrow> bool" where
  "isPhone_test input = (7 \<le> length (takeWhile is_digit input) \<and> dropWhile is_digit input = [])"

text \<open>The common end of \<^verbatim>\<open>handleSearch\<close>: a customer found is shown; otherwise the add form
  opens, filled with the phone number, only after a search by phone.\<close>

definition search_result :: "bool \<Rightarrow> string \<Rightarrow> Customer option \<Rightarrow> app \<Rightarrow> app" where
  "search_result isPhone input data st =
     (case data of
        Some c \<Rightarrow> st\<lparr>currentCustomer := Some c, showAddForm := False, error := [], loading := False\<rparr>
      | None \<Rightarrow>
          st\<lparr>currentCustomer := None, showAddForm := isPhone,
             newCustomer := (if isPhone then (newCustomer st)\<lparr>phoneNumber := input\<rparr> else newCustomer st),
             loading := False\<rparr>)"

text \<open>\<^verbatim>\<open>handleSearch\<close> of the version that searches by phone or name.\<close>

fun handleSearch :: "(string \<Rightarrow> string \<Rightarrow> bool option) \<Rightarrow> app \<times> store \<Rightarrow> app \<times> store" where
  "handleSearch ilike (st0, db) =
     (let st = st0\<lparr>loading := True, nameResults := []\<rparr>;
          input = String_trim (searchPhone st);
          isPhone = isPhone_test input
      in if isPhone then
           (case customers_eq_phone_number_maybeSingle input db of
              (Inl err, db') \<Rightarrow> (st\<lparr>error := ''Failed to search customer'', loading := False\<rparr>, db')
            | (Inr data, db') \<Rightarrow> (search_result isPhone input data st, db'))
         else
           (case customers_ilike_name ilike input db of
              (Inl err, db') \<Rightarrow> (st\<lparr>error := ''Failed to search customer'', loading := False\<rparr>, db')
            | (Inr rows, db') \<Rightarrow>
                if length rows = 1 then (search_result isPhone input (Some (rows ! 0)) st, db')
                else if 1 < length rows then
                  (st\<lparr>nameResults := rows, currentCustomer := None, showAddForm := False,
                      error := [], loading := False\<rparr>, db')
                else (search_result isPhone input None st, db')))"

section \<open>Notions of the specification\<close>

text \<open>
  In the specification's words: a redemption amount is a multiple of the increment \<open>n\<close> when
  it is a finite number and an integer number of increments.
\<close>

definition multiple_of :: "rat \<Rightarrow> number \<Rightarrow> bool" where
  "multiple_of n r = (case r of Fin q \<Rightarrow> of_int \<lfloor>q / n\<rfloor> * n = q | _ \<Rightarrow> False)"

text \<open>
  What a successful ledger operation leaves behind, for the customer \<open>cur\<close> on the page whose
  row in the store is \<open>row\<close>: the balance \<open>p\<close>, in its JSON form, is written to that row and
  shown on the page without an error message, and the store has received the update
  followed by the insert of a transaction of type \<open>ty\<close> with the amount \<open>amt\<close> and the points
  \<open>pts\<close>, which is appended to the table.
\<close>

definition written ::
  "env \<Rightarrow> app \<Rightarrow> store \<Rightarrow> Customer \<Rightarrow> Customer \<Rightarrow> number \<Rightarrow> string \<Rightarrow> number \<Rightarrow> number
     \<Rightarrow> app \<times> store \<Rightarrow> bool" where
  "written e st db cur row p ty amt pts w =
     (currentCustomer (fst w) = Some (row\<lparr>total_points := JSON_number p\<rparr>)
      \<and> customers (fst w) =
          map (\<lambda>c. if id_cust c = id_cust cur then row\<lparr>total_points := JSON_number p\<rparr> else c)
            (customers st)
      \<and> error (fst w) = []
      \<and> customers_tbl (snd w) =
          map (\<lambda>c. if id_cust c = id_cust cur then c\<lparr>total_points := JSON_number p\<rparr> else c)
            (customers_tbl db)
      \<and> transactions_tbl (snd w) =
          transactions_tbl db @
          [\<lparr>id_tx = next_id e, customer_id = id_cust cur, type = ty, amount = JSON_number amt,
            points_changed = JSON_number pts, created_at = clock e\<rparr>]
      \<and> take (length (requests db) + 2) (requests (snd w)) =
          requests db @ [Update_total_points (id_cust cur) p,
                         Insert_transaction (id_cust cur) ty amt pts])"

text \<open>A successful redemption, as the claims state it: the page shows the customer's row with
  the balance \<open>p\<close> and no error, the store holds that row, and one transaction of type
  \<^verbatim>\<open>redeem\<close> with the amount \<open>r\<close> and the points \<open>delta\<close> is appended.\<close>

definition redeemed ::
  "env \<Rightarrow> store \<Rightarrow> Customer \<Rightarrow> Customer \<Rightarrow> rat \<Rightarrow> rat \<Rightarrow> rat \<Rightarrow> app \<times> store \<Rightarrow> bool" where
  "redeemed e db cur row p r delta w =
     (error (fst w) = []
      \<and> currentCustomer (fst w) = Some (row\<lparr>total_points := Some (Fin p)\<rparr>)
      \<and> filter (\<lambda>c. id_cust c = id_cust cur) (customers_tbl (snd w))
          = [row\<lparr>total_points := Some (Fin p)\<rparr>]
      \<and> transactions_tbl (snd w) =
          transactions_tbl db @
          [\<lparr>id_tx = next_id e, customer_id = id_cust cur, type = ''redeem'',
            amount = Some (Fin r), points_changed = Some (Fin delta), created_at = clock e\<rparr>])"

section \<open>Example data\<close>

text \<open>Two time zones: UTC, and Central European Time with the summer time of 2024 (from
  2024-03-31T01:00Z to 2024-10-27T01:00Z the offset is two hours instead of one; a local
  time that is skipped or repeated is read with the offset before the change).\<close>

definition zone_UTC :: zone where
  "zone_UTC = \<lparr>offset_at_utc = (\<lambda>t. 0), offset_at_local = (\<lambda>t. 0)\<rparr>"

definition zone_Berlin_2024 :: zone where
  "zone_Berlin_2024 =
     \<lparr>offset_at_utc = (\<lambda>t. if days_from_civil 2024 3 31 * msPerDay + 3600000 \<le> t
                             \<and> t < days_from_civil 2024 10 27 * msPerDay + 3600000
                          then 7200000 else 3600000),
      offset_at_local = (\<lambda>t. if days_from_civil 2024 3 31 * msPerDay + 3 * 3600000 \<le> t
                               \<and> t < days_from_civil 2024 10 27 * msPerDay + 3 * 3600000
                            then 7200000 else 3600000)\<rparr>"

text \<open>The \<^verbatim>\<open>ILIKE\<close> of a pattern without wildcard or escape characters: equality up to the case
  of ASCII letters.\<close>

definition lower_ascii :: "char \<Rightarrow> char" where
  "lower_ascii c = (if c \<in> set ''ABCDEFGHIJKLMNOPQRSTUVWXYZ'' then char_of (of_char c + (32::nat)) else c)"

definition ilike_plain :: "string \<Rightarrow> string \<Rightarrow> bool option" where
  "ilike_plain v pat = Some (map lower_ascii v = map lower_ascii pat)"

definition alice :: Customer where
  "alice = \<lparr>id_cust = ''c1'', phone_number = ''5551234567'', name = Some ''Alice'',
            total_points = Some (Fin 250), created_at_cust = 1700000000000\<rparr>"

definition bob :: Customer where
  "bob = \<lparr>id_cust = ''c2'', phone_number = ''5559876543'', name = Some ''Bob'',
          total_points = Some (Fin 40), created_at_cust = 1700000500000\<rparr>"

definition alice2 :: Customer where
  "alice2 = \<lparr>id_cust = ''c3'', phone_number = ''5550001111'', name = Some ''ALICE'',
             total_points = Some (Fin 0), created_at_cust = 1700000900000\<rparr>"

definition db0 :: store where
  "db0 = \<lparr>customers_tbl = [alice, bob], transactions_tbl = [], requests = [], nullable = False\<rparr>"

definition st0 :: app where
  "st0 = \<lparr>customers = [alice, bob], searchPhone = [], currentCustomer = Some alice,
          showAddForm = False,
          newCustomer = \<lparr>phoneNumber = [], name_new = [], total_points_new = Fin 0\<rparr>,
          purchaseAmount = [], error = [], loading = False, transactions = [],
          historyPage = Fin 1, historyPageSize = Fin 10, historyStartDate = [],
          historyEndDate = [], nameResults = []\<rparr>"

text \<open>Three transactions of the first customer, created at 2024-01-01T23:30Z,
  2024-03-31T12:00Z and 2024-04-01T09:00Z, and one of the second customer.\<close>

definition tx_january :: Transaction where
  "tx_january = \<lparr>id_tx = ''t01'', customer_id = ''c1'', type = ''add'', amount = Some (Fin 120),
                 points_changed = Some (Fin 120), created_at = 1704151800000\<rparr>"

definition tx_march :: Transaction where
  "tx_march = \<lparr>id_tx = ''t02'', customer_id = ''c1'', type = ''add'', amount = Some (Fin 130),
               points_changed = Some (Fin 130), created_at = 1711886400000\<rparr>"

definition tx_april :: Transaction where
  "tx_april = \<lparr>id_tx = ''t03'', customer_id = ''c1'', type = ''redeem'', amount = Some (Fin 5),
               points_changed = Some (Fin (- 100)), created_at = 1711962000000\<rparr>"

definition tx_other :: Transaction where
  "tx_other = \<lparr>id_tx = ''t04'', customer_id = ''c2'', type = ''add'', amount = Some (Fin 40),
               points_changed = Some (Fin 40), created_at = 1711886400000\<rparr>"

definition db1 :: store where
  "db1 = \<lparr>customers_tbl = [alice, bob, alice2],
          transactions_tbl = [tx_january, tx_march, tx_other, tx_april], requests = [],
          nullable = False\<rparr>"

definition env0 :: env where
  "env0 = \<lparr>next_id = ''t1'', clock = 1704110400000, host_zone = zone_UTC\<rparr>"

section \<open>The store and the reload of the history\<close>

lemma update_single_row:
  assumes "filter (\<lambda>c. id_cust c = i) (customers_tbl db) = [row]"
      and "JSON_number p \<noteq> None \<or> nullable db"
  shows "customers_update_total_points_single i p db =
           (Inr (row\<lparr>total_points := JSON_number p\<rparr>),
            send (Update_total_points i p)
              (db\<lparr>customers_tbl :=
                    map (\<lambda>c. if id_cust c = i then c\<lparr>total_points := JSON_number p\<rparr> else c)
                      (customers_tbl db)\<rparr>))"
  using assms by (simp add: customers_update_total_points_single_def)


lemma filter_updated_rows:
  "filter (\<lambda>c. id_cust c = i) (map (\<lambda>c. if id_cust c = i then c\<lparr>total_points := v\<rparr> else c) xs)
     = map (\<lambda>c. c\<lparr>total_points := v\<rparr>) (filter (\<lambda>c. id_cust c = i) xs)"
  by (induction xs) auto

lemma transactions_select_store:
  "snd (transactions_select c g l db) = send (Select_transactions c g l) db"
  by (simp add: transactions_select_def split: option.splits)

lemma loadTransactions_frame:
  "\<exists>txs qs. loadTransactions z i (st, db) = (st\<lparr>transactions := txs\<rparr>, db\<lparr>requests := requests db @ qs\<rparr>)"
proof (cases "end_filter z (historyEndDate st)")
  case None
  then have "loadTransactions z i (st, db) = (st\<lparr>transactions := transactions st\<rparr>, db\<lparr>requests := requests db @ []\<rparr>)"
    by simp
  then show ?thesis by blast
next
  case (Some lt)
  let ?g = "if historyStartDate st \<noteq> [] then Some (historyStartDate st) else None"
  obtain r db' where sel: "transactions_select i ?g lt db = (r, db')"
    by (cases "transactions_select i ?g lt db")
  then have db': "db' = db\<lparr>requests := requests db @ [Select_transactions i ?g lt]\<rparr>"
    using transactions_select_store [of i ?g lt db] by (simp add: send_def)
  show ?thesis
  proof (cases r)
    case (Inl err)
    have "loadTransactions z i (st, db) = (st\<lparr>transactions := transactions st\<rparr>, db')"
      using Some sel Inl by simp
    then show ?thesis unfolding db' by blast
  next
    case (Inr data)
    have "loadTransactions z i (st, db) = (st\<lparr>transactions := data\<rparr>, db')"
      using Some sel Inr by simp
    then show ?thesis unfolding db' by blast
  qed
qed

lemma written_reload:
  assumes "currentCustomer st' = Some (row\<lparr>total_points := JSON_number p\<rparr>)"
      and "customers st' =
             map (\<lambda>c. if id_cust c = id_cust cur then row\<lparr>total_points := JSON_number p\<rparr> else c)
               (customers st)"
      and "error st' = []"
      and "customers_tbl db' =
             map (\<lambda>c. if id_cust c = id_cust cur then c\<lparr>total_points := JSON_number p\<rparr> else c)
               (customers_tbl db)"
      and "transactions_tbl db' =
             transactions_tbl db @
             [\<lparr>id_tx = next_id e, customer_id = id_cust cur, type = ty, amount = JSON_number amt,
               points_changed = JSON_number pts, created_at = clock e\<rparr>]"
      and "requests db' = requests db @ [Update_total_points (id_cust cur) p,
             Insert_transaction (id_cust cur) ty amt pts]"
  shows "written e st db cur row p ty amt pts (loadTransactions z i (st', db'))"
proof -
  obtain txs qs where
    "loadTransactions z i (st', db') = (st'\<lparr>transactions := txs\<rparr>, db'\<lparr>requests := requests db' @ qs\<rparr>)"
    using loadTransactions_frame by blast
  then show ?thesis
    using assms by (simp add: written_def)
qed

lemma written_row:
  assumes "written e st db cur row p ty amt pts w"
      and "filter (\<lambda>c. id_cust c = id_cust cur) (customers_tbl db) = [row]"
  shows "filter (\<lambda>c. id_cust c = id_cust cur) (customers_tbl (snd w))
           = [row\<lparr>total_points := JSON_number p\<rparr>]"
  using assms by (simp add: written_def filter_updated_rows)

lemma JSON_number_Fin: "JSON_number (Fin a) = Some (Fin a)"
  by (simp add: JSON_number_def)

lemma ToNumber_Some: "ToNumber (Some x) = x"
  by (simp add: ToNumber_def)

lemma js_add_NaN_right: "js_add x NaN = NaN"
  by (cases x) simp_all

section \<open>Accrual\<close>


lemma stored_Fin: "JSON_number (Fin a) \<noteq> None \<or> nullable db"
  by (simp add: JSON_number_Fin)


lemma handleAddPoints_accepted:
  assumes cur: "currentCustomer st = Some cur"
      and amt: "Math_floor (Number_js (purchaseAmount st)) = amt"
      and ok: "\<not> js_le amt (Fin 0)"
      and row: "filter (\<lambda>c. id_cust c = id_cust cur) (customers_tbl db) = [row]"
      and balance_stored: "JSON_number (js_add (ToNumber (total_points cur)) amt) \<noteq> None \<or> nullable db"
      and amount_stored: "JSON_number amt \<noteq> None \<or> nullable db"
  shows "written e st db cur row (js_add (ToNumber (total_points cur)) amt) ''add'' amt amt
           (handleAddPoints e (st, db))"
proof -
  let ?p = "js_add (ToNumber (total_points cur)) amt"
  let ?st = "st\<lparr>customers :=
                   map (\<lambda>c. if id_cust c = id_cust cur then row\<lparr>total_points := JSON_number ?p\<rparr> else c)
                     (customers st),
                 currentCustomer := Some (row\<lparr>total_points := JSON_number ?p\<rparr>), purchaseAmount := [],
                 error := [], loading := False\<rparr>"
  let ?db = "transactions_insert e (id_cust cur) ''add'' amt amt
               (send (Update_total_points (id_cust cur) ?p)
                 (db\<lparr>customers_tbl :=
                    map (\<lambda>c. if id_cust c = id_cust cur then c\<lparr>total_points := JSON_number ?p\<rparr> else c)
                      (customers_tbl db)\<rparr>))"
  have step: "handleAddPoints e (st, db) = loadTransactions (host_zone e) (id_cust cur) (?st, ?db)"
    using cur amt ok update_single_row [OF row balance_stored] by (simp del: loadTransactions.simps)
  show ?thesis
    unfolding step
    using amount_stored by (intro written_reload) (auto simp add: transactions_insert_def send_def)
qed



lemma floor_5_2: "\<lfloor>5 / 2 :: rat\<rfloor> = 2"
  by code_simp

lemma alice_row: "filter (\<lambda>c. id_cust c = id_cust alice) (customers_tbl db0) = [alice]"
  by (simp add: db0_def alice_def bob_def)

lemma st0_alice: "currentCustomer st0 = Some alice"
  by (simp add: st0_def)

lemma alice_points: "total_points alice = Some (Fin 250)"
  by (simp add: alice_def)












text \<open>What the store receives is the JSON form of \<^verbatim>\<open>NaN\<close>. Where the columns accept \<^verbatim>\<open>null\<close>,
  the row of the customer and the transaction carry \<^verbatim>\<open>null\<close> afterwards; where they do not,
  the update is refused, the tables stay as they were and the page shows the message of
  a failed update.\<close>

lemma accrue_NaN_stored_as_null:
  assumes "currentCustomer st = Some cur"
      and "Number_js (purchaseAmount st) = NaN"
      and "filter (\<lambda>c. id_cust c = id_cust cur) (customers_tbl db) = [row]"
      and "nullable db"
  shows "filter (\<lambda>c. id_cust c = id_cust cur) (customers_tbl (snd (handleAddPoints e (st, db))))
           = [row\<lparr>total_points := None\<rparr>]
       \<and> transactions_tbl (snd (handleAddPoints e (st, db)))
           = transactions_tbl db @
             [\<lparr>id_tx = next_id e, customer_id = id_cust cur, type = ''add'', amount = None,
               points_changed = None, created_at = clock e\<rparr>]"
proof -
  have amt: "Math_floor (Number_js (purchaseAmount st)) = NaN"
    using assms(2) by simp
  have ok: "\<not> js_le NaN (Fin 0)"
    by simp
  have w: "written e st db cur row NaN ''add'' NaN NaN (handleAddPoints e (st, db))"
    using handleAddPoints_accepted [OF assms(1) amt ok assms(3) disjI2 [OF assms(4)] disjI2 [OF assms(4)], of e]
    by (simp add: js_add_NaN_right)
  from w written_row [OF w assms(3)] show ?thesis
    by (simp add: written_def JSON_number_def)
qed

lemma accrue_NaN_refused_by_store:
  assumes "currentCustomer st = Some cur"
      and "Number_js (purchaseAmount st) = NaN"
      and "\<not> nullable db"
  shows "handleAddPoints e (st, db)
           = (st\<lparr>error := ''Failed to add points'', loading := False\<rparr>,
              send (Update_total_points (id_cust cur) NaN) db)"
  using assms
  by (simp add: js_add_NaN_right customers_update_total_points_single_def JSON_number_def)

section \<open>Redemption\<close>

lemma trunc_exact_iff: "of_int (trunc x) = x \<longleftrightarrow> (\<exists>k::int. x = of_int k)"
  by (simp add: trunc_def)

lemma multiple_of_iff:
  assumes "n \<noteq> 0"
  shows "multiple_of n (Fin q) \<longleftrightarrow> (\<exists>k::int. q = of_int k * n)"
proof
  assume "multiple_of n (Fin q)"
  then have "q = of_int \<lfloor>q / n\<rfloor> * n"
    by (simp add: multiple_of_def)
  then show "\<exists>k::int. q = of_int k * n" ..
next
  assume "\<exists>k::int. q = of_int k * n"
  then obtain k :: int where "q = of_int k * n" ..
  with assms have "q / n = of_int k"
    by simp
  then have "\<lfloor>q / n\<rfloor> = k"
    by simp
  with \<open>q = of_int k * n\<close> show "multiple_of n (Fin q)"
    by (simp add: multiple_of_def)
qed

lemma js_rem_multiple:
  assumes "n \<noteq> 0"
  shows "js_sne (js_rem r (Fin n)) (Fin 0) \<longleftrightarrow> \<not> multiple_of n r"
proof (cases r)
  case (Fin q)
  have "q - n * of_int (trunc (q / n)) = 0 \<longleftrightarrow> of_int (trunc (q / n)) = q / n"
    using assms by (auto simp add: field_simps)
  also have "\<dots> \<longleftrightarrow> (\<exists>k::int. q / n = of_int k)"
    by (rule trunc_exact_iff)
  also have "\<dots> \<longleftrightarrow> (\<exists>k::int. q = of_int k * n)"
    using assms by (simp add: field_simps)
  finally show ?thesis
    using Fin assms by (simp add: js_sne_def multiple_of_iff)
qed (simp_all add: js_sne_def multiple_of_def)

lemma handleRedeem_not_multiple:
  assumes "currentCustomer st = Some cur"
      and "\<not> multiple_of 5 r"
  shows "handleRedeem e r (st, db) = (st\<lparr>error := ''Redemption must be in $5 increments.''\<rparr>, db)"
  using assms js_rem_multiple [of 5 r] by simp

lemma handleRedeem_10_not_multiple:
  assumes "currentCustomer st = Some cur"
      and "\<not> multiple_of 10 r"
  shows "handleRedeem_10 e r (st, db) = (st\<lparr>error := ''Redemption must be in $10 increments.''\<rparr>, db)"
  using assms js_rem_multiple [of 10 r] by simp

lemma handleRedeem_insufficient:
  assumes "currentCustomer st = Some cur"
      and "total_points cur = Some (Fin b)"
      and "multiple_of 5 (Fin q)"
      and "b < q * 20"
  shows "handleRedeem e (Fin q) (st, db) = (st\<lparr>error := ''Not enough points for this redemption.''\<rparr>, db)"
  using assms js_rem_multiple [of 5 "Fin q"] by (simp add: ToNumber_Some)

lemma handleRedeem_10_insufficient:
  assumes "currentCustomer st = Some cur"
      and "total_points cur = Some (Fin b)"
      and "multiple_of 10 (Fin q)"
      and "b < q * 10"
  shows "handleRedeem_10 e (Fin q) (st, db) = (st\<lparr>error := ''Not enough points for this redemption.''\<rparr>, db)"
  using assms js_rem_multiple [of 10 "Fin q"] by (simp add: ToNumber_Some)

lemma handleRedeem_accepted:
  assumes cur: "currentCustomer st = Some cur"
      and bal: "total_points cur = Some (Fin b)"
      and mult: "multiple_of 5 (Fin q)"
      and enough: "q * 20 \<le> b"
      and row: "filter (\<lambda>c. id_cust c = id_cust cur) (customers_tbl db) = [row]"
  shows "written e st db cur row (Fin (b - q * 20)) ''redeem'' (Fin q) (Fin (- (q * 20)))
           (handleRedeem e (Fin q) (st, db))"
proof -
  let ?p = "Fin (b - q * 20)"
  let ?st = "st\<lparr>customers :=
                   map (\<lambda>c. if id_cust c = id_cust cur then row\<lparr>total_points := JSON_number ?p\<rparr> else c)
                     (customers st),
                 currentCustomer := Some (row\<lparr>total_points := JSON_number ?p\<rparr>), error := [],
                 loading := False\<rparr>"
  let ?db = "transactions_insert e (id_cust cur) ''redeem'' (Fin q) (Fin (- (q * 20)))
               (send (Update_total_points (id_cust cur) ?p)
                 (db\<lparr>customers_tbl :=
                    map (\<lambda>c. if id_cust c = id_cust cur then c\<lparr>total_points := JSON_number ?p\<rparr> else c)
                      (customers_tbl db)\<rparr>))"
  have step: "handleRedeem e (Fin q) (st, db) = loadTransactions (host_zone e) (id_cust cur) (?st, ?db)"
  proof -
    have pn: "js_mul (js_div (Fin q) (Fin 5)) (Fin 100) = Fin (q * 20)"
      by simp
    have ne: "\<not> js_sne (js_rem (Fin q) (Fin 5)) (Fin 0)"
      using mult js_rem_multiple [of 5 "Fin q"] by simp
    have lt: "\<not> js_lt (ToNumber (total_points cur)) (Fin (q * 20))"
      using bal enough by (simp add: ToNumber_Some)
    have sub: "js_sub (ToNumber (total_points cur)) (Fin (q * 20)) = ?p"
      using bal by (simp add: js_sub_def ToNumber_Some)
    have neg: "js_neg (Fin (q * 20)) = Fin (- (q * 20))"
      by simp
    show ?thesis
      by (simp only: handleRedeem.simps cur option.case Let_def pn ne lt sub neg if_False
            update_single_row [OF row stored_Fin] prod.case sum.case)
  qed
  show ?thesis
    unfolding step
    by (rule written_reload) (simp_all add: transactions_insert_def send_def JSON_number_Fin)
qed

lemma handleRedeem_10_accepted:
  assumes cur: "currentCustomer st = Some cur"
      and bal: "total_points cur = Some (Fin b)"
      and mult: "multiple_of 10 (Fin q)"
      and enough: "q * 10 \<le> b"
      and row: "filter (\<lambda>c. id_cust c = id_cust cur) (customers_tbl db) = [row]"
  shows "written e st db cur row (Fin (b - q * 10)) ''redeem'' (Fin q) (Fin (- (q * 10)))
           (handleRedeem_10 e (Fin q) (st, db))"
proof -
  let ?p = "Fin (b - q * 10)"
  let ?st = "st\<lparr>customers :=
                   map (\<lambda>c. if id_cust c = id_cust cur then row\<lparr>total_points := JSON_number ?p\<rparr> else c)
                     (customers st),
                 currentCustomer := Some (row\<lparr>total_points := JSON_number ?p\<rparr>), error := [],
                 loading := False\<rparr>"
  let ?db = "transactions_insert e (id_cust cur) ''redeem'' (Fin q) (Fin (- (q * 10)))
               (send (Update_total_points (id_cust cur) ?p)
                 (db\<lparr>customers_tbl :=
                    map (\<lambda>c. if id_cust c = id_cust cur then c\<lparr>total_points := JSON_number ?p\<rparr> else c)
                      (customers_tbl db)\<rparr>))"
  have step: "handleRedeem_10 e (Fin q) (st, db) = loadTransactions (host_zone e) (id_cust cur) (?st, ?db)"
  proof -
    have pn: "js_mul (Fin q) (Fin 10) = Fin (q * 10)"
      by simp
    have ne: "\<not> js_sne (js_rem (Fin q) (Fin 10)) (Fin 0)"
      using mult js_rem_multiple [of 10 "Fin q"] by simp
    have lt: "\<not> js_lt (ToNumber (total_points cur)) (Fin (q * 10))"
      using bal enough by (simp add: ToNumber_Some)
    have sub: "js_sub (ToNumber (total_points cur)) (Fin (q * 10)) = ?p"
      using bal by (simp add: js_sub_def ToNumber_Some)
    have neg: "js_neg (Fin (q * 10)) = Fin (- (q * 10))"
      by simp
    show ?thesis
      by (simp only: handleRedeem_10.simps cur option.case Let_def pn ne lt sub neg if_False
            update_single_row [OF row stored_Fin] prod.case sum.case)
  qed
  show ?thesis
    unfolding step
    by (rule written_reload) (simp_all add: transactions_insert_def send_def JSON_number_Fin)
qed

lemma written_redeemed:
  assumes "written e st db cur row (Fin p) ''redeem'' (Fin r) (Fin delta) w"
      and "filter (\<lambda>c. id_cust c = id_cust cur) (customers_tbl db) = [row]"
  shows "redeemed e db cur row p r delta w"
  using assms(1) written_row [OF assms] by (simp add: redeemed_def written_def JSON_number_Fin)

lemma multiple_5_10: "multiple_of 5 (Fin 10)"
  by (simp add: multiple_of_def)

lemma multiple_10_10: "multiple_of 10 (Fin 10)"
  by (simp add: multiple_of_def)

lemma multiple_5_30: "multiple_of 5 (Fin 30)"
  by (simp add: multiple_of_def)

lemma multiple_10_30: "multiple_of 10 (Fin 30)"
  by (simp add: multiple_of_def)



lemma not_multiple_5_7: "\<not> multiple_of 5 (Fin 7)"
  by code_simp

lemma not_multiple_10_7: "\<not> multiple_of 10 (Fin 7)"
  by code_simp




text \<open>
  Claim C1. For every customer and every redemption amount \<open>r\<close> that is a positive multiple of
  the increment, with a balance of at least \<open>r * (100 / increment)\<close> points, \<^verbatim>\<open>handleRedeem\<close>
  succeeds: the new balance is the old one minus \<open>r * (100 / increment)\<close> and is not
  negative, and one transaction of type \<^verbatim>\<open>redeem\<close> is appended with amount \<open>r\<close> and points
  changed \<open>- (r * (100 / increment))\<close>. This holds for the version with $5 increments and
  for the version with $10 increments.
\<close>

theorem redeem_valid_amount:
  assumes "currentCustomer st = Some cur"
      and "total_points cur = Some (Fin b)"
      and "filter (\<lambda>c. id_cust c = id_cust cur) (customers_tbl db) = [row]"
  shows "(multiple_of 5 (Fin q) \<and> 0 < q \<and> q * (100 / 5) \<le> b \<longrightarrow>
            redeemed e db cur row (b - q * (100 / 5)) q (- (q * (100 / 5)))
              (handleRedeem e (Fin q) (st, db))
            \<and> 0 \<le> b - q * (100 / 5))
       \<and> (multiple_of 10 (Fin q) \<and> 0 < q \<and> q * (100 / 10) \<le> b \<longrightarrow>
            redeemed e db cur row (b - q * (100 / 10)) q (- (q * (100 / 10)))
              (handleRedeem_10 e (Fin q) (st, db))
            \<and> 0 \<le> b - q * (100 / 10))"
proof (rule conjI; rule impI)
  assume h: "multiple_of 5 (Fin q) \<and> 0 < q \<and> q * (100 / 5) \<le> b"
  then have "q * 20 \<le> b"
    by simp
  from written_redeemed [OF handleRedeem_accepted [OF assms(1,2) _ this assms(3)] assms(3)] h
  show "redeemed e db cur row (b - q * (100 / 5)) q (- (q * (100 / 5)))
          (handleRedeem e (Fin q) (st, db)) \<and> 0 \<le> b - q * (100 / 5)"
    by simp
next
  assume h: "multiple_of 10 (Fin q) \<and> 0 < q \<and> q * (100 / 10) \<le> b"
  then have "q * 10 \<le> b"
    by simp
  from written_redeemed [OF handleRedeem_10_accepted [OF assms(1,2) _ this assms(3)] assms(3)] h
  show "redeemed e db cur row (b - q * (100 / 10)) q (- (q * (100 / 10)))
          (handleRedeem_10 e (Fin q) (st, db)) \<and> 0 \<le> b - q * (100 / 10)"
    by simp
qed

theorem redeem_valid_amount_witness:
  "currentCustomer st0 = Some alice
   \<and> total_points alice = Some (Fin 250)
   \<and> filter (\<lambda>c. id_cust c = id_cust alice) (customers_tbl db0) = [alice]
   \<and> (multiple_of 5 (Fin 10) \<and> (0::rat) < 10 \<and> (10::rat) * (100 / 5) \<le> 250)
   \<and> redeemed env0 db0 alice alice 50 10 (- 200) (handleRedeem env0 (Fin 10) (st0, db0))
   \<and> (multiple_of 10 (Fin 10) \<and> (0::rat) < 10 \<and> (10::rat) * (100 / 10) \<le> 250)
   \<and> redeemed env0 db0 alice alice 150 10 (- 100) (handleRedeem_10 env0 (Fin 10) (st0, db0))"
proof -
  have h5: "multiple_of 5 (Fin 10) \<and> (0::rat) < 10 \<and> (10::rat) * (100 / 5) \<le> 250"
    using multiple_5_10 by simp
  have h10: "multiple_of 10 (Fin 10) \<and> (0::rat) < 10 \<and> (10::rat) * (100 / 10) \<le> 250"
    using multiple_10_10 by simp
  note r = redeem_valid_amount [OF st0_alice alice_points alice_row, of 10 env0]
  from r h5 have "redeemed env0 db0 alice alice 50 10 (- 200) (handleRedeem env0 (Fin 10) (st0, db0))"
    by (simp del: handleRedeem.simps handleRedeem_10.simps)
  moreover from r h10
  have "redeemed env0 db0 alice alice 150 10 (- 100) (handleRedeem_10 env0 (Fin 10) (st0, db0))"
    by (simp del: handleRedeem.simps handleRedeem_10.simps)
  ultimately show ?thesis
    using st0_alice alice_points alice_row h5 h10 by blast
qed

text \<open>
  Claim C4. A redemption amount that is not a multiple of the increment is refused with the
  message of an invalid increment; a multiple for which the balance is below
  \<open>r * (100 / increment)\<close> is refused with the message of insufficient points. In both cases
  only the error message changes: the balance and the store stay as they were, and no
  transaction is appended. This holds for both versions.
\<close>

theorem redeem_refused:
  assumes "currentCustomer st = Some cur"
  shows "(\<not> multiple_of 5 r \<longrightarrow>
            handleRedeem e r (st, db) = (st\<lparr>error := ''Redemption must be in $5 increments.''\<rparr>, db))
       \<and> (multiple_of 5 (Fin q) \<and> total_points cur = Some (Fin b) \<and> b < q * (100 / 5) \<longrightarrow>
            handleRedeem e (Fin q) (st, db)
              = (st\<lparr>error := ''Not enough points for this redemption.''\<rparr>, db))
       \<and> (\<not> multiple_of 10 r \<longrightarrow>
            handleRedeem_10 e r (st, db) = (st\<lparr>error := ''Redemption must be in $10 increments.''\<rparr>, db))
       \<and> (multiple_of 10 (Fin q) \<and> total_points cur = Some (Fin b) \<and> b < q * (100 / 10) \<longrightarrow>
            handleRedeem_10 e (Fin q) (st, db)
              = (st\<lparr>error := ''Not enough points for this redemption.''\<rparr>, db))"
proof (intro conjI impI)
  assume "\<not> multiple_of 5 r"
  with assms show "handleRedeem e r (st, db) = (st\<lparr>error := ''Redemption must be in $5 increments.''\<rparr>, db)"
    by (rule handleRedeem_not_multiple)
next
  assume "\<not> multiple_of 10 r"
  with assms show "handleRedeem_10 e r (st, db) = (st\<lparr>error := ''Redemption must be in $10 increments.''\<rparr>, db)"
    by (rule handleRedeem_10_not_multiple)
next
  assume h: "multiple_of 5 (Fin q) \<and> total_points cur = Some (Fin b) \<and> b < q * (100 / 5)"
  then have "b < q * 20"
    by simp
  with assms h show "handleRedeem e (Fin q) (st, db)
      = (st\<lparr>error := ''Not enough points for this redemption.''\<rparr>, db)"
    by (intro handleRedeem_insufficient [where b = b and cur = cur]) simp_all
next
  assume h: "multiple_of 10 (Fin q) \<and> total_points cur = Some (Fin b) \<and> b < q * (100 / 10)"
  then have "b < q * 10"
    by simp
  with assms h show "handleRedeem_10 e (Fin q) (st, db)
      = (st\<lparr>error := ''Not enough points for this redemption.''\<rparr>, db)"
    by (intro handleRedeem_10_insufficient [where b = b and cur = cur]) simp_all
qed

theorem redeem_refused_witness:
  "currentCustomer st0 = Some alice
   \<and> \<not> multiple_of 5 (Fin 7)
   \<and> handleRedeem env0 (Fin 7) (st0, db0) = (st0\<lparr>error := ''Redemption must be in $5 increments.''\<rparr>, db0)
   \<and> (multiple_of 5 (Fin 30) \<and> total_points alice = Some (Fin 250) \<and> (250::rat) < 30 * (100 / 5))
   \<and> handleRedeem env0 (Fin 30) (st0, db0) = (st0\<lparr>error := ''Not enough points for this redemption.''\<rparr>, db0)
   \<and> \<not> multiple_of 10 (Fin 7)
   \<and> handleRedeem_10 env0 (Fin 7) (st0, db0) = (st0\<lparr>error := ''Redemption must be in $10 increments.''\<rparr>, db0)
   \<and> (multiple_of 10 (Fin 30) \<and> total_points alice = Some (Fin 250) \<and> (250::rat) < 30 * (100 / 10))
   \<and> handleRedeem_10 env0 (Fin 30) (st0, db0) = (st0\<lparr>error := ''Not enough points for this redemption.''\<rparr>, db0)"
proof -
  have h5: "multiple_of 5 (Fin 30) \<and> total_points alice = Some (Fin 250) \<and> (250::rat) < 30 * (100 / 5)"
    using multiple_5_30 alice_points by simp
  have h10: "multiple_of 10 (Fin 30) \<and> total_points alice = Some (Fin 250) \<and> (250::rat) < 30 * (100 / 10)"
    using multiple_10_30 alice_points by simp
  note r = redeem_refused [OF st0_alice, of "Fin 7" env0 db0 30 250]
  show ?thesis
    using r st0_alice not_multiple_5_7 not_multiple_10_7 h5 h10 by blast
qed




section \<open>Redemption options\<close>

lemma options_loop_run:
  assumes "0 < s"
  shows "j \<le> Suc M \<Longrightarrow>
         options_loop (Fin s) (Fin (of_nat M * s)) (Fin (of_nat j * s)) acc
           = Some (acc @ map (\<lambda>k. Fin (of_nat k * s)) [j..<Suc M])"
proof (induction "Suc M - j" arbitrary: j acc)
  case 0
  then have j: "j = Suc M"
    by simp
  have "\<not> (1 + of_nat M) * s \<le> of_nat M * s"
    using assms by (simp add: algebra_simps)
  then show ?case
    unfolding j by (subst options_loop.simps) simp
next
  case (Suc n)
  then have le: "j \<le> M" and n: "n = Suc M - Suc j" and le': "Suc j \<le> Suc M"
    by simp_all
  have "(of_nat j :: rat) \<le> of_nat M"
    using le by simp
  then have cond: "of_nat j * s \<le> of_nat M * s"
    using assms by (simp add: mult_right_mono)
  have next_i: "of_nat j * s + s = of_nat (Suc j) * s"
    by (simp add: algebra_simps)
  have "options_loop (Fin s) (Fin (of_nat M * s)) (Fin (of_nat j * s)) acc
          = options_loop (Fin s) (Fin (of_nat M * s)) (Fin (of_nat (Suc j) * s)) (acc @ [Fin (of_nat j * s)])"
    by (subst options_loop.simps) (simp only: js_le.simps cond if_True js_add.simps next_i)
  also have "\<dots> = Some ((acc @ [Fin (of_nat j * s)]) @ map (\<lambda>k. Fin (of_nat k * s)) [Suc j..<Suc M])"
    by (rule Suc.hyps(1) [OF n le'])
  also have "\<dots> = Some (acc @ map (\<lambda>k. Fin (of_nat k * s)) [j..<Suc M])"
    using le by (simp add: upt_conv_Cons)
  finally show ?case .
qed

lemma options_loop_from_step:
  assumes "0 < s" and "0 \<le> q"
  shows "options_loop (Fin s) (js_mul (Math_floor (js_div (Fin q) (Fin 100))) (Fin s)) (Fin s) []
           = Some (map (\<lambda>k. Fin (of_nat k * s)) [1..<Suc (nat \<lfloor>q / 100\<rfloor>)])"
proof -
  have "0 \<le> \<lfloor>q / 100\<rfloor>"
    using assms(2) by simp
  then have m: "(of_int \<lfloor>q / 100\<rfloor> :: rat) = of_nat (nat \<lfloor>q / 100\<rfloor>)"
    by simp
  have maxRedemption: "js_mul (Math_floor (js_div (Fin q) (Fin 100))) (Fin s)
      = Fin (of_nat (nat \<lfloor>q / 100\<rfloor>) * s)"
    unfolding m [symmetric] by simp
  have start: "Fin s = Fin (of_nat 1 * s)"
    by simp
  have "options_loop (Fin s) (Fin (of_nat (nat \<lfloor>q / 100\<rfloor>) * s)) (Fin (of_nat 1 * s)) []
          = Some ([] @ map (\<lambda>k. Fin (of_nat k * s)) [1..<Suc (nat \<lfloor>q / 100\<rfloor>)])"
    by (rule options_loop_run [OF assms(1)]) simp
  then show ?thesis
    unfolding maxRedemption by (simp only: start [symmetric] append_Nil)
qed

text \<open>
  Claim C6. For every balance that is not negative, \<^verbatim>\<open>getRedemptionOptions\<close> returns, and its
  result is the list of the multiples of the increment from the increment itself up to
  \<open>\<lfloor>balance / 100\<rfloor>\<close> increments, in ascending order; the list is empty when the balance is
  below 100. This holds for the version with $5 increments and for the one with $10
  increments; with $5 increments a balance of 250 gives \<open>[5, 10]\<close> and a balance of 90 gives
  the empty list.
\<close>

theorem redemption_options:
  assumes "0 \<le> q"
  shows "getRedemptionOptions (Fin q) = Some (map (\<lambda>k. Fin (of_nat k * 5)) [1..<Suc (nat \<lfloor>q / 100\<rfloor>)])
       \<and> getRedemptionOptions_10 (Fin q) = Some (map (\<lambda>k. Fin (of_nat k * 10)) [1..<Suc (nat \<lfloor>q / 100\<rfloor>)])
       \<and> (q < 100 \<longrightarrow> getRedemptionOptions (Fin q) = Some [] \<and> getRedemptionOptions_10 (Fin q) = Some [])"
proof -
  have five: "getRedemptionOptions (Fin q) = Some (map (\<lambda>k. Fin (of_nat k * 5)) [1..<Suc (nat \<lfloor>q / 100\<rfloor>)])"
    unfolding getRedemptionOptions_def Let_def by (rule options_loop_from_step) (simp_all add: assms)
  have ten: "getRedemptionOptions_10 (Fin q) = Some (map (\<lambda>k. Fin (of_nat k * 10)) [1..<Suc (nat \<lfloor>q / 100\<rfloor>)])"
    unfolding getRedemptionOptions_10_def Let_def by (rule options_loop_from_step) (simp_all add: assms)
  have "q < 100 \<longrightarrow> \<lfloor>q / 100\<rfloor> = 0"
    using assms by (simp add: floor_eq_iff)
  with five ten show ?thesis
    by simp
qed

theorem redemption_options_witness:
  "(0::rat) \<le> 250
   \<and> getRedemptionOptions (Fin 250) = Some [Fin 5, Fin 10]
   \<and> getRedemptionOptions_10 (Fin 250) = Some [Fin 10, Fin 20]
   \<and> (0::rat) \<le> 90 \<and> (90::rat) < 100
   \<and> getRedemptionOptions (Fin 90) = Some []
   \<and> getRedemptionOptions_10 (Fin 90) = Some []"
proof -
  have a: "(0::rat) \<le> 250" and b: "(0::rat) \<le> 90" and c: "(90::rat) < 100"
    by simp_all
  have upt: "[Suc 0..<3] = [1, 2]"
    by code_simp
  from redemption_options [OF a] redemption_options [OF b] a b c show ?thesis
    by (simp add: floor_5_2 upt)
qed

section \<open>Pagination\<close>

lemma ceiling_nat_div:
  assumes "0 < n"
  shows "\<lceil>(of_nat a :: rat) / of_nat n\<rceil> = int ((a + n - 1) div n)"
proof (rule ceiling_unique)
  let ?k = "(a + n - 1) div n"
  have eq: "?k * n + (a + n - 1) mod n = a + n - 1"
    by simp
  have r: "(a + n - 1) mod n < n"
    using assms by simp
  from eq r assms have up: "a \<le> ?k * n" and lo: "?k * n < a + n"
    by linarith+
  have n: "(0::rat) < of_nat n"
    using assms by simp
  have "(of_nat (?k * n) :: rat) < of_nat (a + n)"
    using lo by (simp only: of_nat_less_iff)
  then have "(of_nat ?k - 1) * of_nat n < (of_nat a :: rat)"
    by (simp add: algebra_simps)
  then show "of_int (int ?k) - 1 < (of_nat a :: rat) / of_nat n"
    using n by (simp add: pos_less_divide_eq)
  have "(of_nat a :: rat) \<le> of_nat (?k * n)"
    using up by (simp only: of_nat_le_iff)
  then show "(of_nat a :: rat) / of_nat n \<le> of_int (int ?k)"
    using n by (simp add: pos_divide_le_eq)
qed

lemma Array_slice_Nil: "Array_slice [] a b = []"
  by (simp add: Array_slice_def)

text \<open>
  Claim C5. For every list of transactions and every page size \<open>n > 0\<close>, the page count is
  \<open>\<lceil>count / n\<rceil>\<close>, computed here as \<open>(count + n - 1) div n\<close>, and the count displayed is that
  number but at least 1; for the empty list the page slice is empty and the count displayed
  is 1 (so for page 1 and page size 10).
\<close>

theorem pagination_total_pages:
  assumes "historyPageSize st = Fin (of_nat n)"
      and "0 < n"
  shows "totalPages st = Fin (of_nat ((length (transactions st) + n - 1) div n))
       \<and> totalPages_shown st = Fin (of_nat (max 1 ((length (transactions st) + n - 1) div n)))
       \<and> (transactions st = [] \<longrightarrow> totalPages_shown st = Fin 1 \<and> paginatedTransactions st = [])"
proof -
  let ?k = "(length (transactions st) + n - 1) div n"
  have n: "(of_nat n :: rat) \<noteq> 0"
    using assms(2) by simp
  have total: "totalPages st = Fin (of_nat ?k)"
    using n by (simp add: totalPages_def assms(1) ceiling_nat_div [OF assms(2)])
  have shown: "totalPages_shown st = Fin (of_nat (max 1 ?k))"
    by (cases "?k = 0") (simp_all add: totalPages_shown_def total js_or_def truthy_def max_def)
  have "transactions st = [] \<longrightarrow> ?k = 0"
    using assms(2) by simp
  with total shown show ?thesis
    by (auto simp add: paginatedTransactions_def Array_slice_Nil)
qed

theorem pagination_total_pages_witness:
  "historyPageSize st0 = Fin (of_nat 10) \<and> (0::nat) < 10 \<and> transactions st0 = []
   \<and> totalPages st0 = Fin 0 \<and> totalPages_shown st0 = Fin 1 \<and> paginatedTransactions st0 = []
   \<and> historyPageSize (st0\<lparr>transactions := replicate 11 tx_march\<rparr>) = Fin (of_nat 10)
   \<and> totalPages (st0\<lparr>transactions := replicate 11 tx_march\<rparr>) = Fin 2
   \<and> totalPages_shown (st0\<lparr>transactions := replicate 11 tx_march\<rparr>) = Fin 2"
proof -
  have h1: "historyPageSize st0 = Fin (of_nat 10)"
    by (simp add: st0_def)
  have h2: "(0::nat) < 10"
    by simp
  have h3: "transactions st0 = []"
    by (simp add: st0_def)
  have h4: "historyPageSize (st0\<lparr>transactions := replicate 11 tx_march\<rparr>) = Fin (of_nat 10)"
    by (simp add: st0_def)
  from pagination_total_pages [OF h1 h2] pagination_total_pages [OF h4 h2] h1 h2 h3 h4
  show ?thesis
    by simp
qed

section \<open>Customer lookup by phone or name\<close>

lemma isPhone_test_iff: "isPhone_test s \<longleftrightarrow> 7 \<le> length s \<and> list_all is_digit s"
proof (cases "list_all is_digit s")
  case True
  then have tw: "takeWhile is_digit s = s" and dw: "dropWhile is_digit s = []"
    by (simp_all add: list_all_iff)
  show ?thesis
    unfolding isPhone_test_def tw dw using True by simp
next
  case False
  then have "dropWhile is_digit s \<noteq> []"
    by (simp add: list_all_iff)
  with False show ?thesis
    by (simp add: isPhone_test_def)
qed

lemma handleSearch_phone:
  assumes "isPhone_test (String_trim (searchPhone st))"
  shows "handleSearch ilike (st, db) =
           (case filter (\<lambda>c. phone_number c = String_trim (searchPhone st)) (customers_tbl db) of
              [] \<Rightarrow> (st\<lparr>nameResults := [], currentCustomer := None, showAddForm := True,
                         newCustomer := (newCustomer st)\<lparr>phoneNumber := String_trim (searchPhone st)\<rparr>,
                         loading := False\<rparr>,
                     send (Select_customer_eq_phone_number (String_trim (searchPhone st))) db)
            | [c] \<Rightarrow> (st\<lparr>nameResults := [], currentCustomer := Some c, showAddForm := False,
                          error := [], loading := False\<rparr>,
                      send (Select_customer_eq_phone_number (String_trim (searchPhone st))) db)
            | _ \<Rightarrow> (st\<lparr>nameResults := [], error := ''Failed to search customer'', loading := False\<rparr>,
                    send (Select_customer_eq_phone_number (String_trim (searchPhone st))) db))"
  using assms
  by (simp add: Let_def customers_eq_phone_number_maybeSingle_def search_result_def split: list.splits)

lemma handleSearch_name:
  assumes "\<not> isPhone_test (String_trim (searchPhone st))"
      and "\<not> list_ex (\<lambda>c. case name c of None \<Rightarrow> False
                                | Some n \<Rightarrow> ilike n (String_trim (searchPhone st)) = None) (customers_tbl db)"
  shows "handleSearch ilike (st, db) =
           (case filter (\<lambda>c. case name c of None \<Rightarrow> False
                               | Some n \<Rightarrow> ilike n (String_trim (searchPhone st)) = Some True) (customers_tbl db) of
              [] \<Rightarrow> (st\<lparr>nameResults := [], currentCustomer := None, showAddForm := False,
                         loading := False\<rparr>,
                     send (Select_customers_ilike_name (String_trim (searchPhone st))) db)
            | [c] \<Rightarrow> (st\<lparr>nameResults := [], currentCustomer := Some c, showAddForm := False,
                          error := [], loading := False\<rparr>,
                      send (Select_customers_ilike_name (String_trim (searchPhone st))) db)
            | c # c' # cs \<Rightarrow> (st\<lparr>nameResults := c # c' # cs, currentCustomer := None, showAddForm := False,
                          error := [], loading := False\<rparr>,
                      send (Select_customers_ilike_name (String_trim (searchPhone st))) db))"
  using assms
  by (simp add: Let_def customers_ilike_name_def search_result_def split: list.splits)

lemma handleSearch_requests:
  "requests (snd (handleSearch ilike (st, db))) = requests db @
     [if isPhone_test (String_trim (searchPhone st))
      then Select_customer_eq_phone_number (String_trim (searchPhone st))
      else Select_customers_ilike_name (String_trim (searchPhone st))]"
  by (simp add: Let_def customers_eq_phone_number_maybeSingle_def customers_ilike_name_def send_def
        split: list.splits)

lemma trim_examples:
  "String_trim '' 5551234567 '' = ''5551234567''"
  "String_trim ''5550000000'' = ''5550000000''"
  "String_trim ''alice'' = ''alice''"
  "String_trim ''bob'' = ''bob''"
  "String_trim ''carol'' = ''carol''"
  by code_simp+

lemma phone_examples:
  "7 \<le> length ''5551234567'' \<and> list_all is_digit ''5551234567''"
  "7 \<le> length ''5550000000'' \<and> list_all is_digit ''5550000000''"
  "\<not> (7 \<le> length ''alice'' \<and> list_all is_digit ''alice'')"
  "\<not> (7 \<le> length ''bob'' \<and> list_all is_digit ''bob'')"
  "\<not> (7 \<le> length ''carol'' \<and> list_all is_digit ''carol'')"
  by (simp_all add: is_digit_def)

lemma found_examples:
  "filter (\<lambda>c. phone_number c = ''5551234567'') (customers_tbl db1) = [alice]"
  "filter (\<lambda>c. phone_number c = ''5550000000'') (customers_tbl db1) = []"
  by (simp_all add: db1_def alice_def bob_def alice2_def)

lemma ilike_examples:
  "\<not> list_ex (\<lambda>c. case name c of None \<Rightarrow> False | Some n \<Rightarrow> ilike_plain n pat = None) (customers_tbl db1)"
  "filter (\<lambda>c. case name c of None \<Rightarrow> False | Some n \<Rightarrow> ilike_plain n ''alice'' = Some True)
     (customers_tbl db1) = [alice, alice2]"
  "filter (\<lambda>c. case name c of None \<Rightarrow> False | Some n \<Rightarrow> ilike_plain n ''bob'' = Some True)
     (customers_tbl db1) = [bob]"
  "filter (\<lambda>c. case name c of None \<Rightarrow> False | Some n \<Rightarrow> ilike_plain n ''carol'' = Some True)
     (customers_tbl db1) = []"
proof -
  show "\<not> list_ex (\<lambda>c. case name c of None \<Rightarrow> False | Some n \<Rightarrow> ilike_plain n pat = None) (customers_tbl db1)"
    by (simp add: list_ex_iff ilike_plain_def split: option.splits)
  show "filter (\<lambda>c. case name c of None \<Rightarrow> False | Some n \<Rightarrow> ilike_plain n ''alice'' = Some True)
     (customers_tbl db1) = [alice, alice2]"
    by code_simp
  show "filter (\<lambda>c. case name c of None \<Rightarrow> False | Some n \<Rightarrow> ilike_plain n ''bob'' = Some True)
     (customers_tbl db1) = [bob]"
    by code_simp
  show "filter (\<lambda>c. case name c of None \<Rightarrow> False | Some n \<Rightarrow> ilike_plain n ''carol'' = Some True)
     (customers_tbl db1) = []"
    by code_simp
qed

lemma search_inputs:
  "String_trim (searchPhone (st0\<lparr>searchPhone := '' 5551234567 ''\<rparr>)) = ''5551234567''"
  "String_trim (searchPhone (st0\<lparr>searchPhone := ''5550000000''\<rparr>)) = ''5550000000''"
  "String_trim (searchPhone (st0\<lparr>searchPhone := ''alice''\<rparr>)) = ''alice''"
  "String_trim (searchPhone (st0\<lparr>searchPhone := ''bob''\<rparr>)) = ''bob''"
  "String_trim (searchPhone (st0\<lparr>searchPhone := ''carol''\<rparr>)) = ''carol''"
  by (simp_all add: trim_examples)

text \<open>
  Claim C8. For the trimmed search term, \<^verbatim>\<open>handleSearch\<close> sends the query by phone number
  (an exact match on \<^verbatim>\<open>phone_number\<close>) when the term consists of seven or more digits and
  nothing else, which is what \<^verbatim>\<open>^\d{7,}$\<close> matches, and the query by name (\<^verbatim>\<open>ILIKE\<close>, the
  store's case-insensitive match) otherwise; it sends nothing else. By phone, the row found
  becomes the current customer, and no row opens the add form with the number filled in.
  By name, when the store accepts the pattern: no match leaves no current customer and no
  add form, exactly one match becomes the current customer, and several matches are put
  in \<^verbatim>\<open>nameResults\<close> for the caller to choose from.
\<close>

theorem search_by_phone_or_name:
  "let input = String_trim (searchPhone st);
       w = handleSearch ilike (st, db);
       found = filter (\<lambda>c. phone_number c = input) (customers_tbl db);
       matches = filter (\<lambda>c. case name c of None \<Rightarrow> False | Some n \<Rightarrow> ilike n input = Some True)
                   (customers_tbl db)
   in if 7 \<le> length input \<and> list_all is_digit input
      then requests (snd w) = requests db @ [Select_customer_eq_phone_number input]
         \<and> (found = [] \<longrightarrow>
              fst w = st\<lparr>nameResults := [], currentCustomer := None, showAddForm := True,
                         newCustomer := (newCustomer st)\<lparr>phoneNumber := input\<rparr>, loading := False\<rparr>)
         \<and> (found = [c] \<longrightarrow>
              fst w = st\<lparr>nameResults := [], currentCustomer := Some c, showAddForm := False,
                         error := [], loading := False\<rparr>)
      else requests (snd w) = requests db @ [Select_customers_ilike_name input]
         \<and> (\<not> list_ex (\<lambda>c. case name c of None \<Rightarrow> False | Some n \<Rightarrow> ilike n input = None)
                 (customers_tbl db) \<longrightarrow>
              (matches = [] \<longrightarrow>
                 fst w = st\<lparr>nameResults := [], currentCustomer := None, showAddForm := False,
                            loading := False\<rparr>)
            \<and> (matches = [c] \<longrightarrow>
                 fst w = st\<lparr>nameResults := [], currentCustomer := Some c, showAddForm := False,
                            error := [], loading := False\<rparr>)
            \<and> (1 < length matches \<longrightarrow>
                 fst w = st\<lparr>nameResults := matches, currentCustomer := None, showAddForm := False,
                            error := [], loading := False\<rparr>))"
proof (cases "isPhone_test (String_trim (searchPhone st))")
  case True
  then have "7 \<le> length (String_trim (searchPhone st)) \<and> list_all is_digit (String_trim (searchPhone st))"
    using isPhone_test_iff by blast
  then show ?thesis
    using True handleSearch_requests [of ilike st db]
      handleSearch_phone [where ilike = ilike and st = st and db = db]
    by (simp add: Let_def)
next
  case False
  then have no: "\<not> (7 \<le> length (String_trim (searchPhone st)) \<and> list_all is_digit (String_trim (searchPhone st)))"
    using isPhone_test_iff by blast
  have log: "requests (snd (handleSearch ilike (st, db)))
      = requests db @ [Select_customers_ilike_name (String_trim (searchPhone st))]"
    using False handleSearch_requests [of ilike st db] by simp
  have outcome: "fst (handleSearch ilike (st, db)) =
      (case filter (\<lambda>c. case name c of None \<Rightarrow> False
                               | Some n \<Rightarrow> ilike n (String_trim (searchPhone st)) = Some True) (customers_tbl db) of
         [] \<Rightarrow> st\<lparr>nameResults := [], currentCustomer := None, showAddForm := False, loading := False\<rparr>
       | [c] \<Rightarrow> st\<lparr>nameResults := [], currentCustomer := Some c, showAddForm := False,
                     error := [], loading := False\<rparr>
       | c # c' # cs \<Rightarrow> st\<lparr>nameResults := c # c' # cs, currentCustomer := None, showAddForm := False,
                     error := [], loading := False\<rparr>)"
    if "\<not> list_ex (\<lambda>c. case name c of None \<Rightarrow> False
                                | Some n \<Rightarrow> ilike n (String_trim (searchPhone st)) = None) (customers_tbl db)"
    using handleSearch_name [where ilike = ilike and st = st and db = db] False that
    by (simp split: list.splits)
  let ?matches = "filter (\<lambda>c. case name c of None \<Rightarrow> False
                               | Some n \<Rightarrow> ilike n (String_trim (searchPhone st)) = Some True) (customers_tbl db)"
  have none: "fst (handleSearch ilike (st, db))
      = st\<lparr>nameResults := [], currentCustomer := None, showAddForm := False, loading := False\<rparr>"
    if "\<not> list_ex (\<lambda>c. case name c of None \<Rightarrow> False
                                | Some n \<Rightarrow> ilike n (String_trim (searchPhone st)) = None) (customers_tbl db)"
      and "?matches = []"
    using outcome [OF that(1)] that(2) by (simp only: list.case)
  have one: "fst (handleSearch ilike (st, db))
      = st\<lparr>nameResults := [], currentCustomer := Some c, showAddForm := False, error := [],
           loading := False\<rparr>"
    if "\<not> list_ex (\<lambda>c. case name c of None \<Rightarrow> False
                                | Some n \<Rightarrow> ilike n (String_trim (searchPhone st)) = None) (customers_tbl db)"
      and "?matches = [c]"
    using outcome [OF that(1)] that(2) by (simp only: list.case)
  have many: "fst (handleSearch ilike (st, db))
      = st\<lparr>nameResults := ?matches, currentCustomer := None, showAddForm := False, error := [],
           loading := False\<rparr>"
    if ok: "\<not> list_ex (\<lambda>c. case name c of None \<Rightarrow> False
                                | Some n \<Rightarrow> ilike n (String_trim (searchPhone st)) = None) (customers_tbl db)"
      and len: "1 < length ?matches"
  proof -
    obtain c c' cs where "?matches = c # c' # cs"
      using len by (cases ?matches; cases "tl ?matches") auto
    then show ?thesis
      using outcome [OF ok] by (simp only: list.case)
  qed
  show ?thesis
    unfolding Let_def
    by (simp only: no if_False) (intro conjI impI log none one many)
qed

theorem search_by_phone_or_name_witness:
  "((7 \<le> length ''5551234567'' \<and> list_all is_digit ''5551234567'')
    \<and> filter (\<lambda>c. phone_number c = ''5551234567'') (customers_tbl db1) = [alice]
    \<and> requests (snd (handleSearch ilike_plain (st0\<lparr>searchPhone := '' 5551234567 ''\<rparr>, db1)))
        = requests db1 @ [Select_customer_eq_phone_number ''5551234567'']
    \<and> fst (handleSearch ilike_plain (st0\<lparr>searchPhone := '' 5551234567 ''\<rparr>, db1))
        = st0\<lparr>searchPhone := '' 5551234567 '', nameResults := [], currentCustomer := Some alice,
              showAddForm := False, error := [], loading := False\<rparr>)
   \<and> ((7 \<le> length ''5550000000'' \<and> list_all is_digit ''5550000000'')
    \<and> filter (\<lambda>c. phone_number c = ''5550000000'') (customers_tbl db1) = []
    \<and> fst (handleSearch ilike_plain (st0\<lparr>searchPhone := ''5550000000''\<rparr>, db1))
        = st0\<lparr>searchPhone := ''5550000000'', nameResults := [], currentCustomer := None,
              showAddForm := True,
              newCustomer := (newCustomer (st0\<lparr>searchPhone := ''5550000000''\<rparr>))\<lparr>phoneNumber := ''5550000000''\<rparr>,
              loading := False\<rparr>)
   \<and> (\<not> (7 \<le> length ''alice'' \<and> list_all is_digit ''alice'')
    \<and> requests (snd (handleSearch ilike_plain (st0\<lparr>searchPhone := ''alice''\<rparr>, db1)))
        = requests db1 @ [Select_customers_ilike_name ''alice'']
    \<and> fst (handleSearch ilike_plain (st0\<lparr>searchPhone := ''alice''\<rparr>, db1))
        = st0\<lparr>searchPhone := ''alice'', nameResults := [alice, alice2], currentCustomer := None,
              showAddForm := False, error := [], loading := False\<rparr>)
   \<and> (\<not> (7 \<le> length ''bob'' \<and> list_all is_digit ''bob'')
    \<and> fst (handleSearch ilike_plain (st0\<lparr>searchPhone := ''bob''\<rparr>, db1))
        = st0\<lparr>searchPhone := ''bob'', nameResults := [], currentCustomer := Some bob,
              showAddForm := False, error := [], loading := False\<rparr>)
   \<and> (\<not> (7 \<le> length ''carol'' \<and> list_all is_digit ''carol'')
    \<and> fst (handleSearch ilike_plain (st0\<lparr>searchPhone := ''carol''\<rparr>, db1))
        = st0\<lparr>searchPhone := ''carol'', nameResults := [], currentCustomer := None,
              showAddForm := False, loading := False\<rparr>)"
proof -
  note found = found_examples
  note like = ilike_examples
  have two: "1 < length [alice, alice2]"
    by simp
  have p1: "requests (snd (handleSearch ilike_plain (st0\<lparr>searchPhone := '' 5551234567 ''\<rparr>, db1)))
        = requests db1 @ [Select_customer_eq_phone_number ''5551234567'']
    \<and> fst (handleSearch ilike_plain (st0\<lparr>searchPhone := '' 5551234567 ''\<rparr>, db1))
        = st0\<lparr>searchPhone := '' 5551234567 '', nameResults := [], currentCustomer := Some alice,
              showAddForm := False, error := [], loading := False\<rparr>"
    using search_by_phone_or_name [of "st0\<lparr>searchPhone := '' 5551234567 ''\<rparr>" ilike_plain db1 alice]
    by (simp only: Let_def search_inputs phone_examples if_True found simp_thms)
  have p2: "fst (handleSearch ilike_plain (st0\<lparr>searchPhone := ''5550000000''\<rparr>, db1))
        = st0\<lparr>searchPhone := ''5550000000'', nameResults := [], currentCustomer := None,
              showAddForm := True,
              newCustomer := (newCustomer (st0\<lparr>searchPhone := ''5550000000''\<rparr>))\<lparr>phoneNumber := ''5550000000''\<rparr>,
              loading := False\<rparr>"
    using search_by_phone_or_name [of "st0\<lparr>searchPhone := ''5550000000''\<rparr>" ilike_plain db1 alice]
    by (simp only: Let_def search_inputs phone_examples if_True found simp_thms)
  have p3: "requests (snd (handleSearch ilike_plain (st0\<lparr>searchPhone := ''alice''\<rparr>, db1)))
        = requests db1 @ [Select_customers_ilike_name ''alice'']
    \<and> fst (handleSearch ilike_plain (st0\<lparr>searchPhone := ''alice''\<rparr>, db1))
        = st0\<lparr>searchPhone := ''alice'', nameResults := [alice, alice2], currentCustomer := None,
              showAddForm := False, error := [], loading := False\<rparr>"
    using search_by_phone_or_name [of "st0\<lparr>searchPhone := ''alice''\<rparr>" ilike_plain db1 alice]
    by (simp only: Let_def search_inputs phone_examples if_False like two simp_thms not_False_eq_True)
  have p4: "fst (handleSearch ilike_plain (st0\<lparr>searchPhone := ''bob''\<rparr>, db1))
        = st0\<lparr>searchPhone := ''bob'', nameResults := [], currentCustomer := Some bob,
              showAddForm := False, error := [], loading := False\<rparr>"
    using search_by_phone_or_name [of "st0\<lparr>searchPhone := ''bob''\<rparr>" ilike_plain db1 bob]
    by (simp only: Let_def search_inputs phone_examples if_False like simp_thms not_False_eq_True)
  have p5: "fst (handleSearch ilike_plain (st0\<lparr>searchPhone := ''carol''\<rparr>, db1))
        = st0\<lparr>searchPhone := ''carol'', nameResults := [], currentCustomer := None,
              showAddForm := False, loading := False\<rparr>"
    using search_by_phone_or_name [of "st0\<lparr>searchPhone := ''carol''\<rparr>" ilike_plain db1 bob]
    by (simp only: Let_def search_inputs phone_examples if_False like simp_thms not_False_eq_True)
  show ?thesis
    using p1 p2 p3 p4 p5 phone_examples found_examples by blast
qed

section \<open>History by date range\<close>

lemma end_filter_examples:
  "end_filter zone_Berlin_2024 ''2024-03-31'' = Some (Some ''2024-03-31'')"
  "end_filter zone_UTC ''2024-03-31'' = Some (Some ''2024-04-01'')"
  "end_filter zone_Berlin_2024 ''2024-01-01'' = Some (Some ''2024-01-02'')"
  "end_filter zone_UTC ''2024-01-01'' = Some (Some ''2024-01-02'')"
  by code_simp+

lemma select_examples:
  "transactions_select ''c1'' (Some ''2024-03-31'') (Some ''2024-03-31'') db1
     = (Inr [], db1\<lparr>requests := [Select_transactions ''c1'' (Some ''2024-03-31'') (Some ''2024-03-31'')]\<rparr>)"
  "transactions_select ''c1'' (Some ''2024-03-31'') (Some ''2024-04-01'') db1
     = (Inr [tx_march], db1\<lparr>requests := [Select_transactions ''c1'' (Some ''2024-03-31'') (Some ''2024-04-01'')]\<rparr>)"
  "transactions_select ''c1'' (Some ''2024-01-01'') (Some ''2024-01-02'') db1
     = (Inr [tx_january], db1\<lparr>requests := [Select_transactions ''c1'' (Some ''2024-01-01'') (Some ''2024-01-02'')]\<rparr>)"
  "transactions_select ''c1'' None None db1
     = (Inr [tx_april, tx_march, tx_january], db1\<lparr>requests := [Select_transactions ''c1'' None None]\<rparr>)"
  by code_simp+

lemma date_examples:
  "Date_of_string ''2024-03-31'' = Some (days_from_civil 2024 3 31 * msPerDay)"
  "Date_of_string ''2024-01-01'' = Some (days_from_civil 2024 1 1 * msPerDay)"
  by code_simp+

lemma tx_examples:
  "customer_id tx_march = ''c1''"
  "tx_march \<in> set (transactions_tbl db1)"
  "days_from_civil 2024 3 31 * msPerDay \<le> created_at tx_march"
  "created_at tx_march < (days_from_civil 2024 3 31 + 1) * msPerDay"
  "customer_id tx_january = ''c1''"
  "tx_january \<in> set (transactions_tbl db1)"
  "days_from_civil 2024 1 1 * msPerDay \<le> created_at tx_january"
  "created_at tx_january < (days_from_civil 2024 1 1 + 1) * msPerDay"
  by (simp_all add: tx_march_def tx_january_def db1_def days_from_civil_def msPerDay_def)

text \<open>On a host in UTC and, in January, on a host in Central European Time, the end date is
  widened as intended: with both dates set to 2024-01-01 the query asks for
  \<open>2024-01-01 \<le> created_at < 2024-01-02\<close> and returns the transaction created at 23:30 that
  day.\<close>

lemma history_new_year_included:
  "loadTransactions zone_UTC ''c1''
     (st0\<lparr>historyStartDate := ''2024-01-01'', historyEndDate := ''2024-01-01''\<rparr>, db1)
   = (st0\<lparr>historyStartDate := ''2024-01-01'', historyEndDate := ''2024-01-01'',
          transactions := [tx_january]\<rparr>,
      db1\<lparr>requests := [Select_transactions ''c1'' (Some ''2024-01-01'') (Some ''2024-01-02'')]\<rparr>)"
  "loadTransactions zone_Berlin_2024 ''c1''
     (st0\<lparr>historyStartDate := ''2024-01-01'', historyEndDate := ''2024-01-01''\<rparr>, db1)
   = (st0\<lparr>historyStartDate := ''2024-01-01'', historyEndDate := ''2024-01-01'',
          transactions := [tx_january]\<rparr>,
      db1\<lparr>requests := [Select_transactions ''c1'' (Some ''2024-01-01'') (Some ''2024-01-02'')]\<rparr>)"
  by (simp_all add: end_filter_examples select_examples)

text \<open>Without date filters the history is the customer's transactions, newest first; and on a
  host in UTC the end date 2024-03-31 includes the transaction of that day.\<close>

lemma history_unfiltered:
  "loadTransactions z ''c1'' (st0, db1)
   = (st0\<lparr>transactions := [tx_april, tx_march, tx_january]\<rparr>,
      db1\<lparr>requests := [Select_transactions ''c1'' None None]\<rparr>)"
  by (simp add: end_filter_def select_examples st0_def)

lemma history_march_included_in_UTC:
  "loadTransactions zone_UTC ''c1''
     (st0\<lparr>historyStartDate := ''2024-03-31'', historyEndDate := ''2024-03-31''\<rparr>, db1)
   = (st0\<lparr>historyStartDate := ''2024-03-31'', historyEndDate := ''2024-03-31'',
          transactions := [tx_march]\<rparr>,
      db1\<lparr>requests := [Select_transactions ''c1'' (Some ''2024-03-31'') (Some ''2024-04-01'')]\<rparr>)"
  by (simp add: end_filter_examples select_examples)

text \<open>
  Claim C7 says that, for every end date, the history holds the customer's transactions
  created before the end date plus one day, so that the whole end day is included. The
  code moves the end date on with \<^verbatim>\<open>setDate(getDate() + 1)\<close>, which works in the local time of
  the host, after parsing the date as midnight UTC and before printing it in UTC. On a host
  in Central European Time and for the end date 2024-03-31, the day summer time starts,
  the local time 01:00 of March 31 becomes 01:00 of April 1, which is 23:00 UTC of March
  31: the upper bound sent is \<^verbatim>\<open>2024-03-31\<close> again. With both dates set to 2024-03-31 the
  query asks for \<open>2024-03-31 \<le> created_at < 2024-03-31\<close>, and the transaction created at
  noon UTC of that day is not in the history.
\<close>

theorem history_end_day_lost_at_dst_change:
  "customer_id tx_march = ''c1''
   \<and> tx_march \<in> set (transactions_tbl db1)
   \<and> Date_of_string ''2024-03-31'' = Some (days_from_civil 2024 3 31 * msPerDay)
   \<and> days_from_civil 2024 3 31 * msPerDay \<le> created_at tx_march
   \<and> created_at tx_march < (days_from_civil 2024 3 31 + 1) * msPerDay
   \<and> loadTransactions zone_Berlin_2024 ''c1''
        (st0\<lparr>historyStartDate := ''2024-03-31'', historyEndDate := ''2024-03-31''\<rparr>, db1)
      = (st0\<lparr>historyStartDate := ''2024-03-31'', historyEndDate := ''2024-03-31'',
             transactions := []\<rparr>,
         db1\<lparr>requests := [Select_transactions ''c1'' (Some ''2024-03-31'') (Some ''2024-03-31'')]\<rparr>)
   \<and> tx_march \<notin> set (transactions (fst (loadTransactions zone_Berlin_2024 ''c1''
        (st0\<lparr>historyStartDate := ''2024-03-31'', historyEndDate := ''2024-03-31''\<rparr>, db1))))"
proof -
  have run: "loadTransactions zone_Berlin_2024 ''c1''
        (st0\<lparr>historyStartDate := ''2024-03-31'', historyEndDate := ''2024-03-31''\<rparr>, db1)
      = (st0\<lparr>historyStartDate := ''2024-03-31'', historyEndDate := ''2024-03-31'',
             transactions := []\<rparr>,
         db1\<lparr>requests := [Select_transactions ''c1'' (Some ''2024-03-31'') (Some ''2024-03-31'')]\<rparr>)"
    by (simp add: end_filter_examples select_examples)
  have "tx_march \<notin> set (transactions (fst (loadTransactions zone_Berlin_2024 ''c1''
        (st0\<lparr>historyStartDate := ''2024-03-31'', historyEndDate := ''2024-03-31''\<rparr>, db1))))"
    unfolding run by simp
  with run tx_examples(1-4) date_examples(1) show ?thesis
    by (intro conjI)
qed

end
